theory Spec2Isabelle
  imports Main
begin

section \<open>Python values, exceptions and the outside world\<close>

text \<open>
  The consensus layer of Circularity Nexus (\<^verbatim>\<open>blockchain/hcs_service.py\<close>,
  \<^verbatim>\<open>blockchain/consensus_manager.py\<close>, \<^verbatim>\<open>blockchain/hcs10_agent.py\<close>) is embedded
  function by function. A Python \<^verbatim>\<open>str\<close> is a \<open>string\<close> holding its UTF-8 bytes, so
  \<^verbatim>\<open>.encode('utf-8')\<close> is the identity and \<^verbatim>\<open>len\<close> of the encoded message counts
  bytes. A \<^verbatim>\<open>datetime\<close> is a natural number. Dictionaries with a fixed set of keys are
  records; dictionaries with caller-chosen keys are association lists. Logger output is not
  part of the model.
\<close>

datatype json =
    JNull
  | JBool bool
  | JNum int
  | JStr string
  | JList "json list"
  | JObj "(string \<times> json) list"

type_synonym pydict = "(string \<times> json) list"

datatype exn =
    ValidationError string
  | BlockchainError string
  | KeyError string
  | AttributeError string string
  | ValueError string
  | SdkError string

definition squote :: string where
  "squote = [CHR 0x27]"

text \<open>\<^verbatim>\<open>str(e)\<close>: the detail of the repository's exceptions, the quoted key of a
  \<^verbatim>\<open>KeyError\<close>, the interpreter's message of an \<^verbatim>\<open>AttributeError\<close>.\<close>

fun str_exn :: "exn \<Rightarrow> string" where
  "str_exn (ValidationError d) = d"
| "str_exn (BlockchainError d) = d"
| "str_exn (KeyError k) = squote @ k @ squote"
| "str_exn (AttributeError ty attr) =
     squote @ ty @ squote @ '' object has no attribute '' @ squote @ attr @ squote"
| "str_exn (ValueError d) = d"
| "str_exn (SdkError d) = d"

text \<open>The class of an exception, \<^verbatim>\<open>type(e).__name__\<close>. The classes of
  \<^verbatim>\<open>core/exceptions.py\<close> that the consensus layer raises are \<^verbatim>\<open>ValidationError\<close> and
  \<^verbatim>\<open>BlockchainError\<close>; an exception of the SDK is known to the code only as an
  \<^verbatim>\<open>Exception\<close>.\<close>

fun exn_class :: "exn \<Rightarrow> string" where
  "exn_class (ValidationError _) = ''ValidationError''"
| "exn_class (BlockchainError _) = ''BlockchainError''"
| "exn_class (KeyError _) = ''KeyError''"
| "exn_class (AttributeError _ _) = ''AttributeError''"
| "exn_class (ValueError _) = ''ValueError''"
| "exn_class (SdkError _) = ''Exception''"

text \<open>The class of the exception a call ended with, \<open>None\<close> when it returned.\<close>

definition raised_class :: "exn + 'a \<Rightarrow> string option" where
  "raised_class r = (case r of Inl e \<Rightarrow> Some (exn_class e) | Inr _ \<Rightarrow> None)"

fun type_name :: "json \<Rightarrow> string" where
  "type_name JNull = ''NoneType''"
| "type_name (JBool _) = ''bool''"
| "type_name (JNum _) = ''int''"
| "type_name (JStr _) = ''str''"
| "type_name (JList _) = ''list''"
| "type_name (JObj _) = ''dict''"

text \<open>\<^verbatim>\<open>content.get(key, default)\<close> and \<^verbatim>\<open>content[key]\<close> on a dictionary.\<close>

definition dict_get_default :: "pydict \<Rightarrow> string \<Rightarrow> json \<Rightarrow> json" where
  "dict_get_default kvs k d = (case map_of kvs k of None \<Rightarrow> d | Some v \<Rightarrow> v)"

definition dict_get :: "pydict \<Rightarrow> string \<Rightarrow> json" where
  "dict_get kvs k = dict_get_default kvs k JNull"

definition dict_item :: "pydict \<Rightarrow> string \<Rightarrow> exn + json" where
  "dict_item kvs k = (case map_of kvs k of None \<Rightarrow> Inl (KeyError k) | Some v \<Rightarrow> Inr v)"

text \<open>Truth value of an \<^verbatim>\<open>Optional[str]\<close>: \<^verbatim>\<open>None\<close> and the empty string are false.\<close>

fun truthy :: "string option \<Rightarrow> bool" where
  "truthy None = False"
| "truthy (Some s) = (s \<noteq> [])"

fun str_opt :: "string option \<Rightarrow> string" where
  "str_opt None = ''None''"
| "str_opt (Some s) = s"

definition digit_char :: "nat \<Rightarrow> char" where
  "digit_char d = ''0123456789'' ! d"

function str_nat :: "nat \<Rightarrow> string" where
  "str_nat n = (if n < 10 then [digit_char n] else str_nat (n div 10) @ [digit_char (n mod 10)])"
  by pat_completeness auto
termination
  by (relation "measure id") auto

declare str_nat.simps [simp del]


subsection \<open>The Hedera SDK and the standard library, as parameters\<close>

record private_key =
  getPublicKey :: string

text \<open>The dictionary \<^verbatim>\<open>HederaClient.create_account\<close> builds for its caller.\<close>

record create_account_result =
  ca_account_id :: string
  ca_private_key :: string
  ca_public_key :: string
  ca_initial_balance :: int
  ca_transaction_id :: string
  ca_status :: string

record topic_receipt =
  tr_topicId :: string
  tr_transactionId :: string
  tr_consensusTimestamp :: "string option"

record submit_receipt =
  sr_transactionId :: string
  sr_consensusTimestamp :: "string option"
  sr_topicSequenceNumber :: nat
  sr_topicRunningHash :: "string option"

record raw_message =
  rm_contents :: string
  rm_consensusTimestamp :: string
  rm_sequenceNumber :: nat
  rm_runningHash :: "string option"
  rm_initialTransactionId :: "string option"
  rm_chunkNumber :: "nat option"
  rm_totalChunks :: "nat option"

text \<open>A transaction or query executed against the network.\<close>

datatype tx =
    TopicCreateTx "string option" string "string option" nat
  | TopicMessageSubmitTx string string "string option"
  | TopicMessageQueryTx string "nat option" "nat option" nat

text \<open>
  Everything the repository calls but does not define. The network answers each
  transaction from the transactions executed so far (\<open>Inl\<close> is the text of the exception
  the SDK raises); the clock and the random generator answer by the number of earlier
  reads; \<open>json_loads\<close> is \<open>None\<close> where \<^verbatim>\<open>json.loads\<close> raises \<^verbatim>\<open>JSONDecodeError\<close>.
  \<open>HederaClient_create_account\<close> is the answer of the client's account creation, a
  result or the exception it raises (see \<open>create_account\<close> below).
\<close>

record env =
  json_dumps :: "json \<Rightarrow> string"
  json_loads :: "string \<Rightarrow> json option"
  utf8_decodes :: "string \<Rightarrow> bool"
  isoformat :: "nat \<Rightarrow> string"
  utcnow :: "nat \<Rightarrow> nat"
  randint :: "nat \<Rightarrow> int \<Rightarrow> int \<Rightarrow> int"
  HederaClient_create_account :: "tx list \<Rightarrow> int \<Rightarrow> nat \<Rightarrow> exn + create_account_result"
  TopicId_fromString :: "string \<Rightarrow> string + string"
  execute_topic_create :: "tx list \<Rightarrow> tx \<Rightarrow> string + topic_receipt"
  execute_message_submit :: "tx list \<Rightarrow> tx \<Rightarrow> string + submit_receipt"
  execute_message_query :: "tx list \<Rightarrow> tx \<Rightarrow> string + raw_message list"

datatype message = MsgStr string | MsgBytes string | MsgDict json

text \<open>A call received by \<^verbatim>\<open>HederaClient\<close> or by the Log Client \<^verbatim>\<open>HCSService\<close>, with
  its arguments: what a mock of the collaborator records.\<close>

datatype call =
    CreateAccount int nat
  | CreateTopic "string option" "string option" "string option" nat
  | SubmitMessage string message "string option" int
  | GetTopicMessages string "nat option" "nat option" nat
  | UnsubscribeFromTopic string

record world =
  calls :: "call list"
  net_txs :: "tx list"
  clock_reads :: nat
  random_draws :: nat

definition record_call :: "call \<Rightarrow> world \<Rightarrow> world" where
  "record_call c w = w\<lparr>calls := calls w @ [c]\<rparr>"

definition now :: "env \<Rightarrow> world \<Rightarrow> nat \<times> world" where
  "now E w = (utcnow E (clock_reads w), w\<lparr>clock_reads := Suc (clock_reads w)\<rparr>)"

definition iso_z :: "env \<Rightarrow> nat \<Rightarrow> string" where
  "iso_z E t = isoformat E t @ ''Z''"


text \<open>Executing one transaction: the attempt is logged whether or not the network accepts it.\<close>

definition execute :: "(tx list \<Rightarrow> tx \<Rightarrow> string + 'r) \<Rightarrow> tx \<Rightarrow> world \<Rightarrow> (exn + 'r) \<times> world" where
  "execute oracle t w =
     (case oracle (net_txs w) t of
        Inl msg \<Rightarrow> (Inl (SdkError msg), w\<lparr>net_txs := net_txs w @ [t]\<rparr>)
      | Inr r \<Rightarrow> (Inr r, w\<lparr>net_txs := net_txs w @ [t]\<rparr>))"

text \<open>\<^verbatim>\<open>try: ... except Exception as e: raise BlockchainError(f"<failure>{str(e)}")\<close>\<close>

definition wrap_error :: "string \<Rightarrow> exn + 'a \<Rightarrow> exn + 'a" where
  "wrap_error failure r =
     (case r of Inl e \<Rightarrow> Inl (BlockchainError (failure @ str_exn e)) | Inr a \<Rightarrow> Inr a)"

section \<open>HederaClient\<close>

record hedera_client =
  operator_account_id :: string
  operator_private_key :: private_key

text \<open>
  \<^verbatim>\<open>create_account\<close> is the one method of \<^verbatim>\<open>HederaClient\<close> that the agent calls.
  Its module, \<^verbatim>\<open>blockchain/hedera_client.py\<close>, is not accepted by the Python parser as it
  stands: line 88 reads \<^verbatim>\<open>Hbar.from(initial_balance)\<close>, and \<^verbatim>\<open>from\<close> is a keyword. No
  behaviour is therefore read off the body of the method. The client is an object handed to
  the constructor of the agent, and what its \<^verbatim>\<open>create_account\<close> returns or raises is
  the parameter \<open>HederaClient_create_account\<close>, answered from the network log and the
  arguments; the call is recorded as for the Log Client.
\<close>

definition create_account ::
  "env \<Rightarrow> hedera_client \<Rightarrow> int \<Rightarrow> nat \<Rightarrow> world \<Rightarrow> (exn + create_account_result) \<times> world" where
  "create_account E hc initial_balance max_automatic_token_associations w =
     (let w1 = record_call (CreateAccount initial_balance max_automatic_token_associations) w
      in (HederaClient_create_account E (net_txs w1) initial_balance max_automatic_token_associations,
          w1))"

section \<open>HCSService, the Log Client\<close>

type_synonym handler = nat

record hcs_service =
  hs_hedera_client :: hedera_client
  subscribed_topics :: "string \<rightharpoonup> bool"
  message_handlers :: "string \<rightharpoonup> handler"

record create_topic_result =
  ct_topic_id :: string
  ct_memo :: "string option"
  ct_admin_key :: "string option"
  ct_submit_key :: string
  ct_auto_renew_period :: nat
  ct_transaction_id :: string
  ct_consensus_timestamp :: "string option"
  ct_status :: string

text \<open>A key is held as its text. The tests \<^verbatim>\<open>if memo:\<close>, \<^verbatim>\<open>if admin_key:\<close> and
  \<^verbatim>\<open>if submit_key:\<close> are tests of the truth value, so an empty value counts as absent
  there, while the recorded call keeps the arguments as they were passed.\<close>

definition create_topic ::
  "env \<Rightarrow> hcs_service \<Rightarrow> string option \<Rightarrow> string option \<Rightarrow> string option \<Rightarrow> nat \<Rightarrow> world
     \<Rightarrow> (exn + create_topic_result) \<times> world" where
  "create_topic E svc memo admin_key submit_key auto_renew_period w =
     (let w1 = record_call (CreateTopic memo admin_key submit_key auto_renew_period) w;
          t = TopicCreateTx (if truthy memo then memo else None)
                (if truthy admin_key then str_opt admin_key
                 else getPublicKey (operator_private_key (hs_hedera_client svc)))
                (if truthy submit_key then submit_key else None) auto_renew_period
      in case execute (execute_topic_create E) t w1 of
           (Inl e, w2) \<Rightarrow> (wrap_error ''Topic creation failed: '' (Inl e), w2)
         | (Inr receipt, w2) \<Rightarrow>
             (Inr \<lparr>ct_topic_id = tr_topicId receipt,
                   ct_memo = memo,
                   ct_admin_key = (if truthy admin_key then admin_key else None),
                   ct_submit_key = (if truthy submit_key then str_opt submit_key else ''public''),
                   ct_auto_renew_period = auto_renew_period,
                   ct_transaction_id = tr_transactionId receipt,
                   ct_consensus_timestamp = tr_consensusTimestamp receipt,
                   ct_status = ''success''\<rparr>, w2))"

subsection \<open>Appending a message, chunked when it exceeds \<open>chunk_size\<close>\<close>

record single_result =
  sg_topic_id :: string
  sg_message_size :: nat
  sg_transaction_id :: string
  sg_consensus_timestamp :: "string option"
  sg_sequence_number :: nat
  sg_running_hash :: "string option"
  sg_status :: string

record chunk_entry =
  ce_chunk_number :: nat
  ce_transaction_id :: string
  ce_sequence_number :: nat

record chunked_result =
  cr_topic_id :: string
  cr_message_size :: nat
  cr_total_chunks :: nat
  cr_initial_transaction_id :: "string option"
  cr_chunks :: "chunk_entry list"
  cr_status :: string

datatype submit_result = Single single_result | Chunked chunked_result

text \<open>\<^verbatim>\<open>range(start, stop, step)\<close> for a positive step, counting up from \<open>start\<close>.\<close>

function range_from :: "nat \<Rightarrow> nat \<Rightarrow> nat \<Rightarrow> nat list" where
  "range_from i stop step =
     (if step = 0 \<or> stop \<le> i then [] else i # range_from (i + step) stop step)"
  by pat_completeness auto
termination
  by (relation "measure (\<lambda>(i, stop, step). stop - i)") auto

declare range_from.simps [simp del]

text \<open>\<^verbatim>\<open>range(0, stop, step)\<close> for \<open>stop \<ge> 0\<close> and any integer step: a zero step raises,
  a negative step gives the empty range.\<close>

definition py_range0 :: "nat \<Rightarrow> int \<Rightarrow> exn + nat list" where
  "py_range0 stop step =
     (if step = 0 then Inl (ValueError ''range() arg 3 must not be zero'')
      else if step < 0 then Inr []
      else Inr (range_from 0 stop (nat step)))"

text \<open>\<^verbatim>\<open>xs[i:j]\<close> for \<open>0 \<le> i \<le> j\<close>.\<close>

definition slice :: "'a list \<Rightarrow> nat \<Rightarrow> nat \<Rightarrow> 'a list" where
  "slice xs i j = take (j - i) (drop i xs)"

definition chunk_memo :: "string option \<Rightarrow> nat \<Rightarrow> nat \<Rightarrow> string option" where
  "chunk_memo memo i total_chunks =
     (if truthy memo
      then Some (str_opt memo @ '':chunk:'' @ str_nat (i + 1) @ ''/'' @ str_nat total_chunks)
      else None)"

text \<open>The body of \<^verbatim>\<open>for i, chunk in enumerate(chunks)\<close>, carrying \<^verbatim>\<open>results\<close> and
  \<^verbatim>\<open>initial_transaction_id\<close>; an exception leaves the loop with the chunks already
  appended.\<close>

fun chunk_loop ::
  "env \<Rightarrow> string \<Rightarrow> string option \<Rightarrow> nat \<Rightarrow> (nat \<times> string) list
     \<Rightarrow> chunk_entry list \<times> string option \<Rightarrow> world
     \<Rightarrow> (exn + chunk_entry list \<times> string option) \<times> world" where
  "chunk_loop E topic memo total_chunks [] acc w = (Inr acc, w)"
| "chunk_loop E topic memo total_chunks ((i, chunk) # rest) (results, initial_transaction_id) w =
     (case execute (execute_message_submit E)
             (TopicMessageSubmitTx topic chunk (chunk_memo memo i total_chunks)) w of
        (Inl e, w') \<Rightarrow> (Inl e, w')
      | (Inr receipt, w') \<Rightarrow>
          chunk_loop E topic memo total_chunks rest
            (results @ [\<lparr>ce_chunk_number = i + 1,
                          ce_transaction_id = sr_transactionId receipt,
                          ce_sequence_number = sr_topicSequenceNumber receipt\<rparr>],
             if i = 0 then Some (sr_transactionId receipt) else initial_transaction_id) w')"

definition split_chunks :: "string \<Rightarrow> int \<Rightarrow> exn + string list" where
  "split_chunks message_bytes chunk_size =
     (case py_range0 (length message_bytes) chunk_size of
        Inl e \<Rightarrow> Inl e
      | Inr starts \<Rightarrow> Inr (map (\<lambda>i. slice message_bytes i (i + nat chunk_size)) starts))"

definition submit_chunked_message ::
  "env \<Rightarrow> hcs_service \<Rightarrow> string \<Rightarrow> string \<Rightarrow> string option \<Rightarrow> int \<Rightarrow> world
     \<Rightarrow> (exn + submit_result) \<times> world" where
  "submit_chunked_message E svc topic message_bytes memo chunk_size w =
     (case split_chunks message_bytes chunk_size of
        Inl e \<Rightarrow> (Inl e, w)
      | Inr chunks \<Rightarrow>
          (let total_chunks = length chunks
           in case chunk_loop E topic memo total_chunks (enumerate 0 chunks) ([], None) w of
                (Inl e, w') \<Rightarrow> (Inl e, w')
              | (Inr (results, initial_transaction_id), w') \<Rightarrow>
                  (Inr (Chunked \<lparr>cr_topic_id = topic,
                                 cr_message_size = length message_bytes,
                                 cr_total_chunks = total_chunks,
                                 cr_initial_transaction_id = initial_transaction_id,
                                 cr_chunks = results,
                                 cr_status = ''success''\<rparr>), w')))"

definition message_to_bytes :: "env \<Rightarrow> message \<Rightarrow> string" where
  "message_to_bytes E message =
     (case message of
        MsgDict d \<Rightarrow> json_dumps E d
      | MsgStr s \<Rightarrow> s
      | MsgBytes b \<Rightarrow> b)"

definition submit_message_body ::
  "env \<Rightarrow> hcs_service \<Rightarrow> string \<Rightarrow> message \<Rightarrow> string option \<Rightarrow> int \<Rightarrow> world
     \<Rightarrow> (exn + submit_result) \<times> world" where
  "submit_message_body E svc topic_id message memo chunk_size w =
     (case TopicId_fromString E topic_id of
        Inl msg \<Rightarrow> (Inl (SdkError msg), w)
      | Inr topic \<Rightarrow>
          (let message_bytes = message_to_bytes E message
           in if int (length message_bytes) > chunk_size
              then submit_chunked_message E svc topic message_bytes memo chunk_size w
              else case execute (execute_message_submit E)
                          (TopicMessageSubmitTx topic message_bytes
                             (if truthy memo then memo else None)) w of
                     (Inl e, w') \<Rightarrow> (Inl e, w')
                   | (Inr receipt, w') \<Rightarrow>
                       (Inr (Single \<lparr>sg_topic_id = topic_id,
                                     sg_message_size = length message_bytes,
                                     sg_transaction_id = sr_transactionId receipt,
                                     sg_consensus_timestamp = sr_consensusTimestamp receipt,
                                     sg_sequence_number = sr_topicSequenceNumber receipt,
                                     sg_running_hash = sr_topicRunningHash receipt,
                                     sg_status = ''success''\<rparr>), w')))"

definition submit_message ::
  "env \<Rightarrow> hcs_service \<Rightarrow> string \<Rightarrow> message \<Rightarrow> string option \<Rightarrow> int \<Rightarrow> world
     \<Rightarrow> (exn + submit_result) \<times> world" where
  "submit_message E svc topic_id message memo chunk_size w =
     (case submit_message_body E svc topic_id message memo chunk_size
             (record_call (SubmitMessage topic_id message memo chunk_size) w) of
        (r, w') \<Rightarrow> (wrap_error ''Message submission failed: '' r, w'))"

subsection \<open>Reading a topic\<close>

record chunk_info =
  ci_initial_transaction_id :: "string option"
  ci_chunk_number :: "nat option"
  ci_total_chunks :: "nat option"

record topic_message =
  tm_consensus_timestamp :: string
  tm_sequence_number :: nat
  tm_running_hash :: "string option"
  tm_contents :: string
  tm_chunk_info :: chunk_info

definition decoded_message :: "raw_message \<Rightarrow> topic_message" where
  "decoded_message m =
     \<lparr>tm_consensus_timestamp = rm_consensusTimestamp m,
      tm_sequence_number = rm_sequenceNumber m,
      tm_running_hash = rm_runningHash m,
      tm_contents = rm_contents m,
      tm_chunk_info = \<lparr>ci_initial_transaction_id = rm_initialTransactionId m,
                       ci_chunk_number = rm_chunkNumber m,
                       ci_total_chunks = rm_totalChunks m\<rparr>\<rparr>"

text \<open>The inner \<^verbatim>\<open>message_handler\<close>: a message whose bytes do not decode is dropped.\<close>

definition collect_messages :: "env \<Rightarrow> raw_message list \<Rightarrow> topic_message list" where
  "collect_messages E raws =
     map decoded_message (filter (\<lambda>m. utf8_decodes E (rm_contents m)) raws)"

definition get_topic_messages ::
  "env \<Rightarrow> hcs_service \<Rightarrow> string \<Rightarrow> nat option \<Rightarrow> nat option \<Rightarrow> nat \<Rightarrow> world
     \<Rightarrow> (exn + topic_message list) \<times> world" where
  "get_topic_messages E svc topic_id start_time end_time limit w =
     (let w1 = record_call (GetTopicMessages topic_id start_time end_time limit) w
      in case TopicId_fromString E topic_id of
           Inl msg \<Rightarrow> (wrap_error ''Topic message query failed: '' (Inl (SdkError msg)), w1)
         | Inr topic \<Rightarrow>
             (case execute (execute_message_query E)
                     (TopicMessageQueryTx topic start_time end_time limit) w1 of
                (Inl e, w2) \<Rightarrow> (wrap_error ''Topic message query failed: '' (Inl e), w2)
              | (Inr raws, w2) \<Rightarrow> (Inr (collect_messages E raws), w2)))"

subsection \<open>Subscription bookkeeping\<close>

record unsubscribe_result =
  us_topic_id :: string
  us_subscription_status :: string
  us_unsubscribed_at :: string

text \<open>\<^verbatim>\<open>if topic_id in d: del d[topic_id]\<close>\<close>

definition del_if_present :: "('k \<rightharpoonup> 'v) \<Rightarrow> 'k \<Rightarrow> ('k \<rightharpoonup> 'v)" where
  "del_if_present d k = (if d k \<noteq> None then d(k := None) else d)"

definition unsubscribe_from_topic ::
  "env \<Rightarrow> string \<Rightarrow> hcs_service \<times> world \<Rightarrow> (exn + unsubscribe_result) \<times> hcs_service \<times> world" where
  "unsubscribe_from_topic E topic_id = (\<lambda>(svc, w).
     (let w1 = record_call (UnsubscribeFromTopic topic_id) w;
          svc1 = svc\<lparr>subscribed_topics := del_if_present (subscribed_topics svc) topic_id\<rparr>;
          svc2 = svc1\<lparr>message_handlers := del_if_present (message_handlers svc1) topic_id\<rparr>;
          (t, w2) = now E w1
      in (Inr \<lparr>us_topic_id = topic_id,
               us_subscription_status = ''inactive'',
               us_unsubscribed_at = iso_z E t\<rparr>, svc2, w2)))"

section \<open>ConsensusManager, the topic registry\<close>

datatype ConsensusTopicType =
    WASTE_SUBMISSIONS
  | CARBON_VERIFICATION
  | RECYCLING_EVENTS
  | AUDIT_TRAIL
  | MARKETPLACE_ACTIVITY
  | SMART_BIN_DATA

fun topic_type_value :: "ConsensusTopicType \<Rightarrow> string" where
  "topic_type_value WASTE_SUBMISSIONS = ''waste_submissions''"
| "topic_type_value CARBON_VERIFICATION = ''carbon_verification''"
| "topic_type_value RECYCLING_EVENTS = ''recycling_events''"
| "topic_type_value AUDIT_TRAIL = ''audit_trail''"
| "topic_type_value MARKETPLACE_ACTIVITY = ''marketplace_activity''"
| "topic_type_value SMART_BIN_DATA = ''smart_bin_data''"

datatype MessagePriority = LOW | MEDIUM | HIGH | CRITICAL

fun priority_value :: "MessagePriority \<Rightarrow> string" where
  "priority_value LOW = ''low''"
| "priority_value MEDIUM = ''medium''"
| "priority_value HIGH = ''high''"
| "priority_value CRITICAL = ''critical''"

text \<open>A registry entry is \<^verbatim>\<open>{**result, "topic_type": ..., "description": ...,
  "created_at": ..., "message_count": 0, "last_activity": None}\<close>; the keys of
  \<^verbatim>\<open>result\<close> are those of \<open>create_topic_result\<close>, none of which is overwritten.\<close>

record topic_info =
  ti_result :: create_topic_result
  ti_topic_type :: string
  ti_description :: string
  ti_created_at :: string
  ti_message_count :: int
  ti_last_activity :: "string option"

record consensus_manager =
  cm_hcs_service :: hcs_service
  cm_hedera_client :: hedera_client
  topic_registry :: "string \<rightharpoonup> topic_info"
  active_subscriptions :: "string \<rightharpoonup> bool"

definition create_consensus_topic ::
  "env \<Rightarrow> ConsensusTopicType \<Rightarrow> string \<Rightarrow> string option \<Rightarrow> string option
     \<Rightarrow> consensus_manager \<times> world \<Rightarrow> (exn + topic_info) \<times> consensus_manager \<times> world" where
  "create_consensus_topic E topic_type description admin_key submit_key = (\<lambda>(cm, w).
     (let memo = ''circularity-nexus:'' @ topic_type_value topic_type @ '':'' @ description
      in case create_topic E (cm_hcs_service cm) (Some memo) admin_key submit_key 7776000 w of
           (Inl e, w1) \<Rightarrow> (wrap_error ''Consensus topic creation failed: '' (Inl e), cm, w1)
         | (Inr result, w1) \<Rightarrow>
             (let (t, w2) = now E w1;
                  info = \<lparr>ti_result = result,
                          ti_topic_type = topic_type_value topic_type,
                          ti_description = description,
                          ti_created_at = iso_z E t,
                          ti_message_count = 0,
                          ti_last_activity = None\<rparr>
              in (Inr info,
                  cm\<lparr>topic_registry := (topic_registry cm)(ct_topic_id result \<mapsto> info)\<rparr>,
                  w2))))"

text \<open>The result of a typed submit: the Log Client's result, then the keys added by
  \<^verbatim>\<open>result.update({...})\<close>.\<close>

record submission_result =
  sb_result :: submit_result
  sb_update :: pydict

text \<open>\<^verbatim>\<open>for field in required_fields: if field not in data: raise ValidationError(...)\<close>\<close>

definition validate_required :: "string list \<Rightarrow> pydict \<Rightarrow> exn + unit" where
  "validate_required required_fields data =
     (case find (\<lambda>field. map_of data field = None) required_fields of
        Some field \<Rightarrow> Inl (ValidationError (''Missing required field: '' @ field))
      | None \<Rightarrow> Inr ())"

text \<open>The registry update after a successful append: \<^verbatim>\<open>if topic_id in
  self.topic_registry: ...["message_count"] += 1; ...["last_activity"] = utcnow\<close>.\<close>

definition update_registry ::
  "env \<Rightarrow> string \<Rightarrow> consensus_manager \<times> world \<Rightarrow> consensus_manager \<times> world" where
  "update_registry E topic_id = (\<lambda>(cm, w).
     (case topic_registry cm topic_id of
        None \<Rightarrow> (cm, w)
      | Some info \<Rightarrow>
          (let (t, w1) = now E w
           in (cm\<lparr>topic_registry := (topic_registry cm)(topic_id \<mapsto>
                     info\<lparr>ti_message_count := ti_message_count info + 1,
                          ti_last_activity := Some (iso_z E t)\<rparr>)\<rparr>, w1))))"

text \<open>
  The five typed submit methods are one body with different constants: the required
  fields, the envelope type (also the memo prefix and the \<^verbatim>\<open>message_type\<close> of the
  result), the metadata, the keys copied from the data into the result, and the prefix of
  the wrapping \<^verbatim>\<open>BlockchainError\<close>. The whole body is inside \<^verbatim>\<open>try\<close>.
\<close>

definition submit_typed_body ::
  "env \<Rightarrow> string list \<Rightarrow> string \<Rightarrow> pydict \<Rightarrow> pydict
     \<Rightarrow> string \<Rightarrow> pydict \<Rightarrow> MessagePriority
     \<Rightarrow> consensus_manager \<times> world \<Rightarrow> (exn + submission_result) \<times> consensus_manager \<times> world" where
  "submit_typed_body E required_fields message_type metadata copied topic_id data priority =
     (\<lambda>(cm, w).
       (case validate_required required_fields data of
          Inl e \<Rightarrow> (Inl e, cm, w)
        | Inr _ \<Rightarrow>
            (let (t, w1) = now E w;
                 message = JObj [(''type'', JStr message_type),
                                 (''version'', JStr ''1.0''),
                                 (''timestamp'', JStr (iso_z E t)),
                                 (''priority'', JStr (priority_value priority)),
                                 (''data'', JObj data),
                                 (''metadata'', JObj metadata)]
             in case submit_message E (cm_hcs_service cm) topic_id (MsgStr (json_dumps E message))
                       (Some (message_type @ '':'' @ priority_value priority)) 1024 w1 of
                  (Inl e, w2) \<Rightarrow> (Inl e, cm, w2)
                | (Inr result, w2) \<Rightarrow>
                    (let (cm', w3) = update_registry E topic_id (cm, w2)
                     in (Inr \<lparr>sb_result = result,
                              sb_update = copied @
                                [(''message_type'', JStr message_type),
                                 (''priority'', JStr (priority_value priority))]\<rparr>, cm', w3)))))"

definition submit_typed ::
  "env \<Rightarrow> string list \<Rightarrow> string \<Rightarrow> pydict \<Rightarrow> pydict \<Rightarrow> string
     \<Rightarrow> string \<Rightarrow> pydict \<Rightarrow> MessagePriority
     \<Rightarrow> consensus_manager \<times> world \<Rightarrow> (exn + submission_result) \<times> consensus_manager \<times> world" where
  "submit_typed E required_fields message_type metadata copied failure topic_id data priority s =
     (case submit_typed_body E required_fields message_type metadata copied topic_id data priority s of
        (r, s') \<Rightarrow> (wrap_error failure r, s'))"

definition submit_waste_submission ::
  "env \<Rightarrow> string \<Rightarrow> pydict \<Rightarrow> MessagePriority
     \<Rightarrow> consensus_manager \<times> world \<Rightarrow> (exn + submission_result) \<times> consensus_manager \<times> world" where
  "submit_waste_submission E topic_id submission_data priority =
     submit_typed E
       [''user_id'', ''waste_type'', ''weight_kg'', ''location'', ''timestamp'']
       ''waste_submission''
       [(''platform'', JStr ''circularity_nexus''),
        (''source'', JStr ''mobile_app''),
        (''verification_status'', JStr ''pending'')]
       [(''submission_id'', dict_get submission_data ''submission_id'')]
       ''Waste submission to consensus failed: ''
       topic_id submission_data priority"

definition submit_carbon_verification ::
  "env \<Rightarrow> string \<Rightarrow> pydict \<Rightarrow> MessagePriority
     \<Rightarrow> consensus_manager \<times> world \<Rightarrow> (exn + submission_result) \<times> consensus_manager \<times> world" where
  "submit_carbon_verification E topic_id verification_data priority =
     submit_typed E
       [''calculation_id'', ''co2_saved_kg'', ''methodology'', ''verification_timestamp'']
       ''carbon_verification''
       [(''platform'', JStr ''circularity_nexus''),
        (''verifier'', JStr ''groq_ai_service''),
        (''standard'', JStr ''ISO_14067'')]
       [(''calculation_id'', dict_get verification_data ''calculation_id'')]
       ''Carbon verification submission failed: ''
       topic_id verification_data priority"

definition submit_recycling_event ::
  "env \<Rightarrow> string \<Rightarrow> pydict \<Rightarrow> MessagePriority
     \<Rightarrow> consensus_manager \<times> world \<Rightarrow> (exn + submission_result) \<times> consensus_manager \<times> world" where
  "submit_recycling_event E topic_id event_data priority =
     submit_typed E
       [''facility_id'', ''event_type'', ''waste_processed_kg'', ''timestamp'']
       ''recycling_event''
       [(''platform'', JStr ''circularity_nexus''),
        (''source'', JStr ''facility_system''),
        (''certification'', dict_get_default event_data ''certification'' (JStr ''ISO_14001''))]
       [(''event_id'', dict_get event_data ''event_id''),
        (''facility_id'', dict_get event_data ''facility_id'')]
       ''Recycling event submission failed: ''
       topic_id event_data priority"

definition submit_audit_record ::
  "env \<Rightarrow> string \<Rightarrow> pydict \<Rightarrow> MessagePriority
     \<Rightarrow> consensus_manager \<times> world \<Rightarrow> (exn + submission_result) \<times> consensus_manager \<times> world" where
  "submit_audit_record E topic_id audit_data priority =
     submit_typed E
       [''action'', ''user_id'', ''resource_type'', ''resource_id'', ''timestamp'']
       ''audit_record''
       [(''platform'', JStr ''circularity_nexus''),
        (''audit_type'', JStr ''system_audit''),
        (''compliance_standard'', JStr ''SOX_404'')]
       [(''audit_id'', dict_get audit_data ''audit_id''),
        (''action'', dict_get audit_data ''action'')]
       ''Audit record submission failed: ''
       topic_id audit_data priority"

definition submit_smart_bin_data ::
  "env \<Rightarrow> string \<Rightarrow> pydict \<Rightarrow> MessagePriority
     \<Rightarrow> consensus_manager \<times> world \<Rightarrow> (exn + submission_result) \<times> consensus_manager \<times> world" where
  "submit_smart_bin_data E topic_id sensor_data priority =
     submit_typed E
       [''bin_id'', ''location'', ''fill_level'', ''timestamp'']
       ''smart_bin_data''
       [(''platform'', JStr ''circularity_nexus''),
        (''source'', JStr ''iot_sensor''),
        (''data_quality'', JStr ''verified'')]
       [(''bin_id'', dict_get sensor_data ''bin_id''),
        (''fill_level'', dict_get sensor_data ''fill_level'')]
       ''Smart bin data submission failed: ''
       topic_id sensor_data priority"

subsection \<open>Reading the history of a topic\<close>

record history_message =
  hm_consensus_timestamp :: string
  hm_sequence_number :: nat
  hm_message_type :: json
  hm_priority :: json
  hm_data :: json
  hm_metadata :: json
  hm_running_hash :: "string option"

record history_result =
  hr_topic_id :: string
  hr_message_type_filter :: "string option"
  hr_total_messages :: nat
  hr_messages :: "history_message list"
  hr_query_timestamp :: string

text \<open>One pass of \<^verbatim>\<open>for message in messages\<close>: \<open>Inr None\<close> is \<^verbatim>\<open>continue\<close>, taken on
  \<^verbatim>\<open>JSONDecodeError\<close> and on a type that the filter rejects. Only
  \<^verbatim>\<open>JSONDecodeError\<close> is caught inside the loop: the \<^verbatim>\<open>content.get\<close> of a parsed
  value that is not a dictionary raises \<^verbatim>\<open>AttributeError\<close>, which leaves the loop.\<close>

definition process_message ::
  "env \<Rightarrow> string option \<Rightarrow> topic_message \<Rightarrow> exn + history_message option" where
  "process_message E message_type message =
     (case json_loads E (tm_contents message) of
        None \<Rightarrow> Inr None
      | Some (JObj content) \<Rightarrow>
          if truthy message_type \<and> dict_get content ''type'' \<noteq> JStr (str_opt message_type)
          then Inr None
          else Inr (Some \<lparr>hm_consensus_timestamp = tm_consensus_timestamp message,
                          hm_sequence_number = tm_sequence_number message,
                          hm_message_type = dict_get content ''type'',
                          hm_priority = dict_get content ''priority'',
                          hm_data = dict_get content ''data'',
                          hm_metadata = dict_get content ''metadata'',
                          hm_running_hash = tm_running_hash message\<rparr>)
      | Some content \<Rightarrow> Inl (AttributeError (type_name content) ''get''))"

fun process_messages ::
  "env \<Rightarrow> string option \<Rightarrow> topic_message list \<Rightarrow> history_message list
     \<Rightarrow> exn + history_message list" where
  "process_messages E message_type [] processed_messages = Inr processed_messages"
| "process_messages E message_type (message # rest) processed_messages =
     (case process_message E message_type message of
        Inl e \<Rightarrow> Inl e
      | Inr None \<Rightarrow> process_messages E message_type rest processed_messages
      | Inr (Some m) \<Rightarrow> process_messages E message_type rest (processed_messages @ [m]))"

definition query_consensus_history ::
  "env \<Rightarrow> string \<Rightarrow> string option \<Rightarrow> nat option \<Rightarrow> nat option \<Rightarrow> nat
     \<Rightarrow> consensus_manager \<times> world \<Rightarrow> (exn + history_result) \<times> consensus_manager \<times> world" where
  "query_consensus_history E topic_id message_type start_time end_time limit = (\<lambda>(cm, w).
     (case get_topic_messages E (cm_hcs_service cm) topic_id start_time end_time limit w of
        (Inl e, w1) \<Rightarrow> (wrap_error ''Consensus history query failed: '' (Inl e), cm, w1)
      | (Inr messages, w1) \<Rightarrow>
          (case process_messages E message_type messages [] of
             Inl e \<Rightarrow> (wrap_error ''Consensus history query failed: '' (Inl e), cm, w1)
           | Inr processed_messages \<Rightarrow>
               (let (t, w2) = now E w1
                in (Inr \<lparr>hr_topic_id = topic_id,
                         hr_message_type_filter = message_type,
                         hr_total_messages = length processed_messages,
                         hr_messages = processed_messages,
                         hr_query_timestamp = iso_z E t\<rparr>, cm, w2)))))"

section \<open>HCS10Agent\<close>

datatype AgentStatus = INITIALIZING | REGISTERED | ACTIVE | INACTIVE | ERROR

fun status_value :: "AgentStatus \<Rightarrow> string" where
  "status_value INITIALIZING = ''initializing''"
| "status_value REGISTERED = ''registered''"
| "status_value ACTIVE = ''active''"
| "status_value INACTIVE = ''inactive''"
| "status_value ERROR = ''error''"

record AgentProfile =
  ap_name :: string
  ap_description :: string
  ap_capabilities :: "string list"
  ap_version :: string
  ap_contact_info :: "(string \<times> string) list option"
  ap_metadata :: "pydict option"

record Connection =
  connection_id :: int
  remote_agent_id :: string
  cn_topic_id :: string
  cn_status :: string
  created_at :: nat
  last_activity :: "nat option"

text \<open>The agent object. A \<open>Connection\<close> is reached only through \<open>connections\<close>, where
  \<^verbatim>\<open>create_connection\<close> stores a fresh object under one key, so the in-place assignment
  \<^verbatim>\<open>connection.last_activity = ...\<close> is an update of that entry.\<close>

record agent =
  profile :: AgentProfile
  registry_topic_id :: "string option"
  message_handler :: "handler option"
  ag_hedera_client :: hedera_client
  ag_hcs_service :: hcs_service
  status :: AgentStatus
  account_id :: "string option"
  inbound_topic_id :: "string option"
  outbound_topic_id :: "string option"
  profile_topic_id :: "string option"
  connections :: "string \<rightharpoonup> Connection"
  message_listeners :: "string option \<rightharpoonup> handler"
  ttl :: nat
  protocol_version :: string

text \<open>Sequencing inside a \<^verbatim>\<open>try\<close> block: the first exception skips the rest and keeps
  the state reached so far.\<close>

definition and_then ::
  "('s \<Rightarrow> (exn + 'a) \<times> 's) \<Rightarrow> ('a \<Rightarrow> 's \<Rightarrow> (exn + 'b) \<times> 's) \<Rightarrow> 's \<Rightarrow> (exn + 'b) \<times> 's" where
  "and_then m f s = (case m s of (Inl e, s') \<Rightarrow> (Inl e, s') | (Inr x, s') \<Rightarrow> f x s')"

text \<open>The \<^verbatim>\<open>operator_id\<close> of the envelopes: the inbound topic id, an at sign, the account id.\<close>

definition operator_id :: "agent \<Rightarrow> string" where
  "operator_id a = str_opt (inbound_topic_id a) @ ''@'' @ str_opt (account_id a)"

definition operator_public_key :: "agent \<Rightarrow> string" where
  "operator_public_key a = getPublicKey (operator_private_key (ag_hedera_client a))"

subsection \<open>\<^verbatim>\<open>initialize\<close>\<close>

text \<open>Step 1: create a Hedera account if needed.\<close>

definition init_account :: "env \<Rightarrow> agent \<times> world \<Rightarrow> (exn + unit) \<times> agent \<times> world" where
  "init_account E = (\<lambda>(a, w).
     if \<not> truthy (account_id a)
     then (case create_account E (ag_hedera_client a) 10 1000 w of
             (Inl e, w1) \<Rightarrow> (Inl e, a, w1)
           | (Inr account_result, w1) \<Rightarrow>
               (Inr (), a\<lparr>account_id := Some (ca_account_id account_result)\<rparr>, w1))
     else (Inr (), a, w))"

text \<open>Step 2: create the outbound topic.\<close>

definition init_outbound_topic :: "env \<Rightarrow> agent \<times> world \<Rightarrow> (exn + unit) \<times> agent \<times> world" where
  "init_outbound_topic E = (\<lambda>(a, w).
     (let outbound_memo = protocol_version a @ '':'' @ str_nat (ttl a) @ '':1''
      in case create_topic E (ag_hcs_service a) (Some outbound_memo) None
                (Some (operator_public_key a)) 7776000 w of
           (Inl e, w1) \<Rightarrow> (Inl e, a, w1)
         | (Inr outbound_result, w1) \<Rightarrow>
             (Inr (), a\<lparr>outbound_topic_id := Some (ct_topic_id outbound_result)\<rparr>, w1)))"

text \<open>Step 3: create the inbound topic, open to public submissions.\<close>

definition init_inbound_topic :: "env \<Rightarrow> agent \<times> world \<Rightarrow> (exn + unit) \<times> agent \<times> world" where
  "init_inbound_topic E = (\<lambda>(a, w).
     (let inbound_memo = protocol_version a @ '':'' @ str_nat (ttl a) @ '':0:'' @ str_opt (account_id a)
      in case create_topic E (ag_hcs_service a) (Some inbound_memo) None None 7776000 w of
           (Inl e, w1) \<Rightarrow> (Inl e, a, w1)
         | (Inr inbound_result, w1) \<Rightarrow>
             (Inr (), a\<lparr>inbound_topic_id := Some (ct_topic_id inbound_result)\<rparr>, w1)))"

text \<open>Step 4: create the HCS-11 profile topic.\<close>

definition init_profile_topic :: "env \<Rightarrow> agent \<times> world \<Rightarrow> (exn + unit) \<times> agent \<times> world" where
  "init_profile_topic E = (\<lambda>(a, w).
     (let profile_memo = ''hcs-11:0:'' @ str_nat (ttl a) @ '':profile''
      in case create_topic E (ag_hcs_service a) (Some profile_memo) None
                (Some (operator_public_key a)) 7776000 w of
           (Inl e, w1) \<Rightarrow> (Inl e, a, w1)
         | (Inr profile_result, w1) \<Rightarrow>
             (Inr (), a\<lparr>profile_topic_id := Some (ct_topic_id profile_result)\<rparr>, w1)))"

definition opt_str_json :: "string option \<Rightarrow> json" where
  "opt_str_json s = (case s of None \<Rightarrow> JNull | Some x \<Rightarrow> JStr x)"

definition profile_data :: "env \<Rightarrow> agent \<Rightarrow> nat \<Rightarrow> json" where
  "profile_data E a t =
     JObj [(''name'', JStr (ap_name (profile a))),
           (''description'', JStr (ap_description (profile a))),
           (''capabilities'', JList (map JStr (ap_capabilities (profile a)))),
           (''version'', JStr (ap_version (profile a))),
           (''contact_info'',
              JObj (case ap_contact_info (profile a) of
                      None \<Rightarrow> []
                    | Some kvs \<Rightarrow> map (\<lambda>(k, v). (k, JStr v)) kvs)),
           (''metadata'', JObj (case ap_metadata (profile a) of None \<Rightarrow> [] | Some kvs \<Rightarrow> kvs)),
           (''topics'', JObj [(''inbound'', opt_str_json (inbound_topic_id a)),
                              (''outbound'', opt_str_json (outbound_topic_id a))]),
           (''published_at'', JStr (iso_z E t))]"

text \<open>Step 5, \<^verbatim>\<open>_publish_profile\<close>. The topic id handed to the Log Client is
  \<^verbatim>\<open>self.profile_topic_id\<close>, set by step 4.\<close>

definition publish_profile :: "env \<Rightarrow> agent \<times> world \<Rightarrow> (exn + unit) \<times> agent \<times> world" where
  "publish_profile E = (\<lambda>(a, w).
     (let (t, w1) = now E w
      in case submit_message E (ag_hcs_service a) (str_opt (profile_topic_id a))
                (MsgStr (json_dumps E (profile_data E a t))) (Some ''hcs-11:profile:0'') 1024 w1 of
           (Inl e, w2) \<Rightarrow> (Inl e, a, w2)
         | (Inr _, w2) \<Rightarrow> (Inr (), a, w2)))"

text \<open>Step 6, \<^verbatim>\<open>_setup_message_listeners\<close>.\<close>

definition setup_message_listeners :: "env \<Rightarrow> agent \<times> world \<Rightarrow> (exn + unit) \<times> agent \<times> world" where
  "setup_message_listeners E = (\<lambda>(a, w).
     (case message_handler a of
        None \<Rightarrow> (Inr (), a, w)
      | Some h \<Rightarrow>
          (Inr (), a\<lparr>message_listeners := (message_listeners a)(inbound_topic_id a \<mapsto> h)\<rparr>, w)))"

record initialize_result =
  ir_agent_id :: "string option"
  ir_inbound_topic :: "string option"
  ir_outbound_topic :: "string option"
  ir_profile_topic :: "string option"
  ir_status :: string
  ir_initialization_timestamp :: string

definition init_finish :: "env \<Rightarrow> agent \<times> world \<Rightarrow> (exn + initialize_result) \<times> agent \<times> world" where
  "init_finish E = (\<lambda>(a, w).
     (let a1 = a\<lparr>status := REGISTERED\<rparr>;
          (t, w1) = now E w
      in (Inr \<lparr>ir_agent_id = account_id a1,
               ir_inbound_topic = inbound_topic_id a1,
               ir_outbound_topic = outbound_topic_id a1,
               ir_profile_topic = profile_topic_id a1,
               ir_status = status_value (status a1),
               ir_initialization_timestamp = iso_z E t\<rparr>, a1, w1)))"

definition initialize_body :: "env \<Rightarrow> agent \<times> world \<Rightarrow> (exn + initialize_result) \<times> agent \<times> world" where
  "initialize_body E =
     and_then (init_account E) (\<lambda>_.
     and_then (init_outbound_topic E) (\<lambda>_.
     and_then (init_inbound_topic E) (\<lambda>_.
     and_then (init_profile_topic E) (\<lambda>_.
     and_then (publish_profile E) (\<lambda>_.
     and_then (setup_message_listeners E) (\<lambda>_.
     init_finish E))))))"

text \<open>\<^verbatim>\<open>except Exception as e: self.status = AgentStatus.ERROR; raise BlockchainError(...)\<close>\<close>

definition initialize :: "env \<Rightarrow> agent \<times> world \<Rightarrow> (exn + initialize_result) \<times> agent \<times> world" where
  "initialize E s =
     (case initialize_body E s of
        (Inl e, a, w) \<Rightarrow>
          (Inl (BlockchainError (''Agent initialization failed: '' @ str_exn e)),
           a\<lparr>status := ERROR\<rparr>, w)
      | (Inr r, a, w) \<Rightarrow> (Inr r, a, w))"

subsection \<open>\<^verbatim>\<open>discover_agents\<close>\<close>

record discovered_agent =
  da_account_id :: json
  da_message :: json
  da_timestamp :: string
  da_sequence_number :: nat

text \<open>One pass of the loop over the registry messages. \<open>Inr None\<close>: nothing is appended
  (\<^verbatim>\<open>JSONDecodeError\<close>, or the condition is false). As in \<^verbatim>\<open>query_consensus_history\<close>,
  a parsed value that is not a dictionary raises \<^verbatim>\<open>AttributeError\<close> at the first
  \<^verbatim>\<open>content.get\<close>; \<^verbatim>\<open>content["account_id"]\<close> raises \<^verbatim>\<open>KeyError\<close> when the key is
  missing. Neither is caught inside the loop.\<close>

definition discover_message ::
  "env \<Rightarrow> string option \<Rightarrow> topic_message \<Rightarrow> exn + discovered_agent option" where
  "discover_message E own_account_id message =
     (case json_loads E (tm_contents message) of
        None \<Rightarrow> Inr None
      | Some (JObj content) \<Rightarrow>
          if dict_get content ''p'' = JStr ''hcs-10'' \<and>
             dict_get content ''op'' = JStr ''register'' \<and>
             dict_get content ''account_id'' \<noteq> opt_str_json own_account_id
          then (case dict_item content ''account_id'' of
                  Inl e \<Rightarrow> Inl e
                | Inr acc \<Rightarrow>
                    Inr (Some \<lparr>da_account_id = acc,
                               da_message = dict_get_default content ''m'' (JStr []),
                               da_timestamp = tm_consensus_timestamp message,
                               da_sequence_number = tm_sequence_number message\<rparr>))
          else Inr None
      | Some content \<Rightarrow> Inl (AttributeError (type_name content) ''get''))"

fun discover_loop ::
  "env \<Rightarrow> string option \<Rightarrow> topic_message list \<Rightarrow> discovered_agent list
     \<Rightarrow> exn + discovered_agent list" where
  "discover_loop E own_account_id [] agents = Inr agents"
| "discover_loop E own_account_id (message # rest) agents =
     (case discover_message E own_account_id message of
        Inl e \<Rightarrow> Inl e
      | Inr None \<Rightarrow> discover_loop E own_account_id rest agents
      | Inr (Some d) \<Rightarrow> discover_loop E own_account_id rest (agents @ [d]))"

definition discover_agents ::
  "env \<Rightarrow> string option \<Rightarrow> agent \<times> world \<Rightarrow> (exn + discovered_agent list) \<times> agent \<times> world" where
  "discover_agents E registry_topic = (\<lambda>(a, w).
     (let rid = (if truthy registry_topic then registry_topic else registry_topic_id a)
      in if \<not> truthy rid
         then (wrap_error ''Agent discovery failed: ''
                 (Inl (BlockchainError ''No registry topic ID provided'')), a, w)
         else (case get_topic_messages E (ag_hcs_service a) (str_opt rid) None None 100 w of
                 (Inl e, w1) \<Rightarrow> (wrap_error ''Agent discovery failed: '' (Inl e), a, w1)
               | (Inr messages, w1) \<Rightarrow>
                   (wrap_error ''Agent discovery failed: ''
                      (discover_loop E (account_id a) messages []), a, w1))))"

subsection \<open>\<^verbatim>\<open>create_connection\<close>\<close>






subsection \<open>\<^verbatim>\<open>send_message\<close> and \<^verbatim>\<open>send_transaction_request\<close>\<close>

definition send_message_body ::
  "env \<Rightarrow> string \<Rightarrow> string \<Rightarrow> string \<Rightarrow> agent \<times> world \<Rightarrow> (exn + submit_result) \<times> agent \<times> world" where
  "send_message_body E target_agent_id message_data message_type = (\<lambda>(a, w).
     (case connections a target_agent_id of
        None \<Rightarrow>
          (Inl (BlockchainError (''No active connection with agent '' @ target_agent_id)), a, w)
      | Some connection \<Rightarrow>
          (let message = JObj [(''p'', JStr ''hcs-10''),
                               (''op'', JStr ''message''),
                               (''operator_id'', JStr (operator_id a)),
                               (''data'', JStr message_data),
                               (''m'', JStr (message_type @ '' communication.''))]
           in case submit_message E (ag_hcs_service a) (cn_topic_id connection)
                     (MsgStr (json_dumps E message)) (Some ''hcs-10:op:6:3'') 1024 w of
                (Inl e, w1) \<Rightarrow> (Inl e, a, w1)
              | (Inr result, w1) \<Rightarrow>
                  (let (t, w2) = now E w1
                   in (Inr result,
                       a\<lparr>connections := (connections a)(target_agent_id \<mapsto>
                            connection\<lparr>last_activity := Some t\<rparr>)\<rparr>,
                       w2)))))"

definition send_message ::
  "env \<Rightarrow> string \<Rightarrow> string \<Rightarrow> string \<Rightarrow> agent \<times> world \<Rightarrow> (exn + submit_result) \<times> agent \<times> world" where
  "send_message E target_agent_id message_data message_type s =
     (case send_message_body E target_agent_id message_data message_type s of
        (r, s') \<Rightarrow> (wrap_error ''Message sending failed: '' r, s'))"

definition send_transaction_request_body ::
  "env \<Rightarrow> string \<Rightarrow> pydict \<Rightarrow> string option \<Rightarrow> agent \<times> world
     \<Rightarrow> (exn + submit_result) \<times> agent \<times> world" where
  "send_transaction_request_body E target_agent_id transaction_data schedule_id = (\<lambda>(a, w).
     (case connections a target_agent_id of
        None \<Rightarrow>
          (Inl (BlockchainError (''No active connection with agent '' @ target_agent_id)), a, w)
      | Some connection \<Rightarrow>
          (let message = JObj [(''p'', JStr ''hcs-10''),
                               (''op'', JStr ''transaction''),
                               (''operator_id'', JStr (operator_id a)),
                               (''schedule_id'',
                                  JStr (if truthy schedule_id then str_opt schedule_id
                                        else ''pending'')),
                               (''data'', JStr (json_dumps E (JObj transaction_data))),
                               (''m'', JStr ''For your approval.'')]
           in case submit_message E (ag_hcs_service a) (cn_topic_id connection)
                     (MsgStr (json_dumps E message)) (Some ''hcs-10:op:7:3'') 1024 w of
                (Inl e, w1) \<Rightarrow> (Inl e, a, w1)
              | (Inr result, w1) \<Rightarrow> (Inr result, a, w1))))"

definition send_transaction_request ::
  "env \<Rightarrow> string \<Rightarrow> pydict \<Rightarrow> string option \<Rightarrow> agent \<times> world
     \<Rightarrow> (exn + submit_result) \<times> agent \<times> world" where
  "send_transaction_request E target_agent_id transaction_data schedule_id s =
     (case send_transaction_request_body E target_agent_id transaction_data schedule_id s of
        (r, s') \<Rightarrow> (wrap_error ''Transaction request failed: '' r, s'))"

section \<open>Callers of the registry\<close>

text \<open>
  A caller of the manager issues topic creations and typed submits in any order.
  \<open>run_calls\<close> performs them one after the other on the same manager and records how each
  one ended: with an exception, with the registry entry of the new topic, or with the result
  of the submit.
\<close>

datatype manager_call =
    CreateConsensusTopic ConsensusTopicType string "string option" "string option"
  | SubmitWasteSubmission string pydict MessagePriority
  | SubmitCarbonVerification string pydict MessagePriority
  | SubmitRecyclingEvent string pydict MessagePriority
  | SubmitAuditRecord string pydict MessagePriority
  | SubmitSmartBinData string pydict MessagePriority

datatype outcome = Raised exn | Created topic_info | Submitted submission_result

definition submitted ::
  "(exn + submission_result) \<times> consensus_manager \<times> world \<Rightarrow> outcome \<times> consensus_manager \<times> world" where
  "submitted x = (case x of (Inl e, s) \<Rightarrow> (Raised e, s) | (Inr r, s) \<Rightarrow> (Submitted r, s))"

fun run_call ::
  "env \<Rightarrow> manager_call \<Rightarrow> consensus_manager \<times> world \<Rightarrow> outcome \<times> consensus_manager \<times> world" where
  "run_call E (CreateConsensusTopic topic_type description admin_key submit_key) s =
     (case create_consensus_topic E topic_type description admin_key submit_key s of
        (Inl e, s') \<Rightarrow> (Raised e, s')
      | (Inr info, s') \<Rightarrow> (Created info, s'))"
| "run_call E (SubmitWasteSubmission topic_id data priority) s =
     submitted (submit_waste_submission E topic_id data priority s)"
| "run_call E (SubmitCarbonVerification topic_id data priority) s =
     submitted (submit_carbon_verification E topic_id data priority s)"
| "run_call E (SubmitRecyclingEvent topic_id data priority) s =
     submitted (submit_recycling_event E topic_id data priority s)"
| "run_call E (SubmitAuditRecord topic_id data priority) s =
     submitted (submit_audit_record E topic_id data priority s)"
| "run_call E (SubmitSmartBinData topic_id data priority) s =
     submitted (submit_smart_bin_data E topic_id data priority s)"

fun run_calls ::
  "env \<Rightarrow> manager_call list \<Rightarrow> consensus_manager \<times> world
     \<Rightarrow> outcome list \<times> consensus_manager \<times> world" where
  "run_calls E [] s = ([], s)"
| "run_calls E (c # cs) s =
     (case run_call E c s of
        (out, s1) \<Rightarrow> (case run_calls E cs s1 of (outs, s2) \<Rightarrow> (out # outs, s2)))"

text \<open>The topic id a submit call is made against.\<close>

fun submit_target :: "manager_call \<Rightarrow> string option" where
  "submit_target (CreateConsensusTopic _ _ _ _) = None"
| "submit_target (SubmitWasteSubmission topic_id _ _) = Some topic_id"
| "submit_target (SubmitCarbonVerification topic_id _ _) = Some topic_id"
| "submit_target (SubmitRecyclingEvent topic_id _ _) = Some topic_id"
| "submit_target (SubmitAuditRecord topic_id _ _) = Some topic_id"
| "submit_target (SubmitSmartBinData topic_id _ _) = Some topic_id"

fun returned :: "outcome \<Rightarrow> bool" where
  "returned (Raised _) = False"
| "returned _ = True"

text \<open>A submit against \<open>t\<close> that returned.\<close>

definition successful_submit :: "string \<Rightarrow> manager_call \<times> outcome \<Rightarrow> bool" where
  "successful_submit t x = (submit_target (fst x) = Some t \<and> returned (snd x))"

definition successful_submits :: "string \<Rightarrow> manager_call list \<Rightarrow> outcome list \<Rightarrow> nat" where
  "successful_submits t cs outs = length (filter (successful_submit t) (zip cs outs))"

text \<open>A creation that returned the topic id \<open>t\<close>.\<close>

fun creates :: "string \<Rightarrow> outcome \<Rightarrow> bool" where
  "creates t (Created info) = (ct_topic_id (ti_result info) = t)"
| "creates t _ = False"

section \<open>A concrete collaborator for the examples\<close>

text \<open>
  The examples run the model against one fixed outside world, in the manner of the unit
  tests' mocks: the client hands out the account \<open>0.0.100\<close>, the network accepts every
  transaction and numbers topics and transactions by the length of the history; \<open>demo_loads\<close> holds
  the value of \<^verbatim>\<open>json.loads\<close> on the payloads the examples use and is \<open>None\<close>
  (\<^verbatim>\<open>JSONDecodeError\<close>) elsewhere; \<open>demo_dumps\<close> is a stand-in that lists the keys of a
  dictionary.
\<close>

definition demo_dumps :: "json \<Rightarrow> string" where
  "demo_dumps j =
     (case j of
        JObj kvs \<Rightarrow> ''{'' @ concat (map (\<lambda>(k, v). k @ '','') kvs) @ ''}''
      | _ \<Rightarrow> type_name j)"

definition demo_loads :: "string \<Rightarrow> json option" where
  \<open>demo_loads =
     map_of
       [(''42'', JNum 42),
        (''{"p": "hcs-10", "op": "register"}'',
           JObj [(''p'', JStr ''hcs-10''), (''op'', JStr ''register'')]),
        (''{"p": "hcs-10", "op": "register", "account_id": "0.0.200"}'',
           JObj [(''p'', JStr ''hcs-10''), (''op'', JStr ''register''),
                 (''account_id'', JStr ''0.0.200'')]),
        (''{"type": "audit_record", "priority": "high"}'',
           JObj [(''type'', JStr ''audit_record''), (''priority'', JStr ''high'')])]\<close>

definition demo_env :: env where
  "demo_env =
     \<lparr>json_dumps = demo_dumps,
      json_loads = demo_loads,
      utf8_decodes = (\<lambda>_. True),
      isoformat = (\<lambda>t. ''2025-01-01T00:00:0'' @ str_nat (t mod 10)),
      utcnow = (\<lambda>k. k),
      randint = (\<lambda>k lo hi. lo + int k),
      HederaClient_create_account =
        (\<lambda>h initial_balance n.
           Inr \<lparr>ca_account_id = ''0.0.100'', ca_private_key = ''new-private-key'',
                ca_public_key = ''new-public-key'', ca_initial_balance = initial_balance,
                ca_transaction_id = ''tx-0'', ca_status = ''success''\<rparr>),
      TopicId_fromString = (\<lambda>s. if s = [] then Inl ''Invalid topic id'' else Inr s),
      execute_topic_create =
        (\<lambda>h t. Inr \<lparr>tr_topicId = ''0.0.10'' @ str_nat (length h),
                      tr_transactionId = ''tx-'' @ str_nat (length h),
                      tr_consensusTimestamp = None\<rparr>),
      execute_message_submit =
        (\<lambda>h t. Inr \<lparr>sr_transactionId = ''tx-'' @ str_nat (length h),
                      sr_consensusTimestamp = None,
                      sr_topicSequenceNumber = Suc (length h),
                      sr_topicRunningHash = None\<rparr>),
      execute_message_query = (\<lambda>h t. Inr [])\<rparr>"

text \<open>The same world with a network that rejects every topic creation.\<close>

definition failing_env :: env where
  "failing_env = demo_env\<lparr>execute_topic_create := (\<lambda>h t. Inl ''INSUFFICIENT_PAYER_BALANCE'')\<rparr>"

text \<open>The same world with a network that rejects every append.\<close>

definition rejecting_env :: env where
  "rejecting_env = demo_env\<lparr>execute_message_submit := (\<lambda>h t. Inl ''INVALID_TOPIC_ID'')\<rparr>"

definition demo_client :: hedera_client where
  "demo_client =
     \<lparr>operator_account_id = ''0.0.2'',
      operator_private_key = \<lparr>getPublicKey = ''operator-public-key''\<rparr>\<rparr>"

definition demo_service :: hcs_service where
  "demo_service =
     \<lparr>hs_hedera_client = demo_client,
      subscribed_topics = Map.empty,
      message_handlers = Map.empty\<rparr>"

definition demo_world :: world where
  "demo_world = \<lparr>calls = [], net_txs = [], clock_reads = 0, random_draws = 0\<rparr>"

definition raw :: "nat \<Rightarrow> string \<Rightarrow> raw_message" where
  "raw n contents =
     \<lparr>rm_contents = contents,
      rm_consensusTimestamp = ''1700000000.00000000'' @ str_nat n,
      rm_sequenceNumber = n,
      rm_runningHash = None,
      rm_initialTransactionId = None,
      rm_chunkNumber = None,
      rm_totalChunks = None\<rparr>"

definition subscribed_service :: hcs_service where
  "subscribed_service =
     demo_service\<lparr>subscribed_topics := [''0.0.101'' \<mapsto> True, ''0.0.102'' \<mapsto> True],
                  message_handlers := [''0.0.101'' \<mapsto> 7, ''0.0.102'' \<mapsto> 8]\<rparr>"

definition demo_manager :: consensus_manager where
  "demo_manager =
     \<lparr>cm_hcs_service = demo_service,
      cm_hedera_client = demo_client,
      topic_registry = Map.empty,
      active_subscriptions = Map.empty\<rparr>"

definition demo_agent :: agent where
  "demo_agent =
     \<lparr>profile = \<lparr>ap_name = ''Recycling Agent'',
                  ap_description = ''Classifies waste'',
                  ap_capabilities = [''waste_classification''],
                  ap_version = ''1.0.0'',
                  ap_contact_info = None,
                  ap_metadata = None\<rparr>,
      registry_topic_id = Some ''0.0.900'',
      message_handler = Some 1,
      ag_hedera_client = demo_client,
      ag_hcs_service = demo_service,
      status = INITIALIZING,
      account_id = None,
      inbound_topic_id = None,
      outbound_topic_id = None,
      profile_topic_id = None,
      connections = Map.empty,
      message_listeners = Map.empty,
      ttl = 60,
      protocol_version = ''hcs-10:0''\<rparr>"

definition demo_connection :: Connection where
  "demo_connection =
     \<lparr>connection_id = 12345,
      remote_agent_id = ''0.0.200'',
      cn_topic_id = ''0.0.300'',
      cn_status = ''active'',
      created_at = 0,
      last_activity = None\<rparr>"

text \<open>An agent with its account and inbound topic and one connection, to \<open>0.0.200\<close>.\<close>

definition connected_agent :: agent where
  "connected_agent =
     demo_agent\<lparr>status := REGISTERED,
                account_id := Some ''0.0.100'',
                inbound_topic_id := Some ''0.0.102'',
                connections := [''0.0.200'' \<mapsto> demo_connection]\<rparr>"

text \<open>A waste submission without \<^verbatim>\<open>weight_kg\<close>, and a complete one.\<close>

definition waste_without_weight :: pydict where
  "waste_without_weight =
     [(''user_id'', JStr ''user-1''),
      (''waste_type'', JStr ''plastic''),
      (''location'', JStr ''Nairobi''),
      (''timestamp'', JStr ''2025-01-01T00:00:00Z'')]"

definition waste_complete :: pydict where
  "waste_complete =
     [(''user_id'', JStr ''user-1''),
      (''waste_type'', JStr ''plastic''),
      (''weight_kg'', JNum 3),
      (''location'', JStr ''Nairobi''),
      (''timestamp'', JStr ''2025-01-01T00:00:00Z'')]"

text \<open>A registry topic holding an undecodable entry, a \<^verbatim>\<open>register\<close> envelope without
  \<^verbatim>\<open>account_id\<close> and a well-formed registration of \<open>0.0.200\<close>.\<close>

definition registry_env :: env where
  \<open>registry_env =
     demo_env\<lparr>execute_message_query := (\<lambda>h t. Inr
       [raw 1 ''not json'',
        raw 2 ''{"p": "hcs-10", "op": "register"}'',
        raw 3 ''{"p": "hcs-10", "op": "register", "account_id": "0.0.200"}''])\<rparr>\<close>

text \<open>A registry topic whose second entry is the JSON number \<open>42\<close>.\<close>

definition number_registry_env :: env where
  \<open>number_registry_env =
     demo_env\<lparr>execute_message_query := (\<lambda>h t. Inr
       [raw 1 ''{"p": "hcs-10", "op": "register", "account_id": "0.0.200"}'',
        raw 2 ''42''])\<rparr>\<close>

text \<open>A business topic holding an audit record and the JSON number \<open>42\<close>.\<close>

definition history_env :: env where
  \<open>history_env =
     demo_env\<lparr>execute_message_query := (\<lambda>h t. Inr
       [raw 1 ''{"type": "audit_record", "priority": "high"}'',
        raw 2 ''42''])\<rparr>\<close>

text \<open>The same topic with an undecodable entry in place of the number.\<close>

definition garbled_history_env :: env where
  \<open>garbled_history_env =
     demo_env\<lparr>execute_message_query := (\<lambda>h t. Inr
       [raw 1 ''{"type": "audit_record", "priority": "high"}'',
        raw 2 ''not json''])\<rparr>\<close>

text \<open>Four submits after the creation of the waste topic \<open>0.0.100\<close>: two complete
  waste submissions, one without \<^verbatim>\<open>weight_kg\<close>, and an empty audit record sent to
  another topic.\<close>

definition demo_calls :: "manager_call list" where
  "demo_calls =
     [SubmitWasteSubmission ''0.0.100'' waste_complete MEDIUM,
      SubmitWasteSubmission ''0.0.100'' waste_without_weight MEDIUM,
      SubmitAuditRecord ''0.0.999'' [] HIGH,
      SubmitWasteSubmission ''0.0.100'' waste_complete LOW]"

definition demo_topic_info :: topic_info where
  "demo_topic_info =
     \<lparr>ti_result =
        \<lparr>ct_topic_id = ''0.0.100'',
           ct_memo = Some ''circularity-nexus:waste_submissions:Waste records'',
           ct_admin_key = None, ct_submit_key = ''public'',
           ct_auto_renew_period = 7776000, ct_transaction_id = ''tx-0'',
           ct_consensus_timestamp = None, ct_status = ''success''\<rparr>,
      ti_topic_type = ''waste_submissions'', ti_description = ''Waste records'',
      ti_created_at = ''2025-01-01T00:00:00Z'', ti_message_count = 0,
      ti_last_activity = None\<rparr>"




section \<open>Properties of the Log Client\<close>

subsection \<open>Shared facts about the network log\<close>

lemma execute_net_txs:
  "execute oracle t w = (r, w') \<Longrightarrow>
     net_txs w' = net_txs w @ [t] \<and> calls w' = calls w \<and>
     clock_reads w' = clock_reads w \<and> random_draws w' = random_draws w"
  by (auto simp: execute_def split: sum.splits)

lemma execute_result:
  "execute oracle t w = (Inr r, w') \<Longrightarrow> oracle (net_txs w) t = Inr r"
  by (auto simp: execute_def split: sum.splits)

subsection \<open>Chunking\<close>

lemma range_from_concat:
  "0 < s \<Longrightarrow> concat (map (\<lambda>i. slice xs i (i + s)) (range_from i (length xs) s)) = drop i xs"
proof (induction i "length xs" s rule: range_from.induct)
  case (1 i step)
  show ?case
  proof (cases "length xs \<le> i")
    case True
    then show ?thesis by (simp add: range_from.simps)
  next
    case False
    with 1 have "concat (map (\<lambda>i. slice xs i (i + step)) (range_from (i + step) (length xs) step))
                   = drop (i + step) xs"
      by simp
    with False 1(2) show ?thesis
      by (subst range_from.simps) (simp add: slice_def add.commute[of i step] flip: drop_drop)
  qed
qed

lemma split_chunks_ok:
  assumes "0 < chunk_size"
  shows "\<exists>chunks. split_chunks bs chunk_size = Inr chunks \<and> concat chunks = bs \<and>
           (\<forall>c \<in> set chunks. length c \<le> nat chunk_size)"
proof -
  from assms have pos: "0 < nat chunk_size" by simp
  have "concat (map (\<lambda>i. slice bs i (i + nat chunk_size))
          (range_from 0 (length bs) (nat chunk_size))) = bs"
    using range_from_concat [OF pos, of bs 0] by simp
  with assms show ?thesis
    by (auto simp: split_chunks_def py_range0_def slice_def)
qed

text \<open>The loop appends one transaction per chunk, in order, keeps the entries it was given
  and touches \<open>initial_transaction_id\<close> only at index 0.\<close>

lemma chunk_loop_inv:
  "chunk_loop E topic memo n ics (results, initial) w = (Inr (results', initial'), w') \<Longrightarrow>
     net_txs w' = net_txs w @
       map (\<lambda>(i, c). TopicMessageSubmitTx topic c (chunk_memo memo i n)) ics
     \<and> calls w' = calls w
     \<and> (\<exists>new. results' = results @ new \<and> length new = length ics)
     \<and> (0 \<notin> fst ` set ics \<longrightarrow> initial' = initial)"
proof (induction ics arbitrary: results initial w)
  case Nil
  then show ?case by simp
next
  case (Cons ic ics)
  obtain i c where ic: "ic = (i, c)" by (cases ic)
  let ?t = "TopicMessageSubmitTx topic c (chunk_memo memo i n)"
  from Cons.prems ic obtain receipt w1 where
    ex: "execute (execute_message_submit E) ?t w = (Inr receipt, w1)"
    and rest: "chunk_loop E topic memo n ics
            (results @ [\<lparr>ce_chunk_number = i + 1, ce_transaction_id = sr_transactionId receipt,
                          ce_sequence_number = sr_topicSequenceNumber receipt\<rparr>],
             if i = 0 then Some (sr_transactionId receipt) else initial) w1
          = (Inr (results', initial'), w')"
    by (auto split: prod.splits sum.splits)
  from Cons.IH [OF rest] execute_net_txs [OF ex] ic show ?case
    by auto
qed

lemma chunk_loop_first:
  assumes "chunk_loop E topic memo n ((0, c) # ics) ([], None) w = (Inr (results, initial), w')"
    and "0 \<notin> fst ` set ics"
  shows "\<exists>receipt.
           execute_message_submit E (net_txs w)
             (TopicMessageSubmitTx topic c (chunk_memo memo 0 n)) = Inr receipt
           \<and> initial = Some (sr_transactionId receipt)
           \<and> results \<noteq> [] \<and> ce_transaction_id (hd results) = sr_transactionId receipt"
proof -
  let ?t = "TopicMessageSubmitTx topic c (chunk_memo memo 0 n)"
  from assms(1) obtain receipt w1 where
    ex: "execute (execute_message_submit E) ?t w = (Inr receipt, w1)"
    and rest: "chunk_loop E topic memo n ics
            ([\<lparr>ce_chunk_number = Suc 0, ce_transaction_id = sr_transactionId receipt,
                ce_sequence_number = sr_topicSequenceNumber receipt\<rparr>],
             Some (sr_transactionId receipt)) w1 = (Inr (results, initial), w')"
    by (auto split: prod.splits sum.splits)
  from chunk_loop_inv [OF rest] assms(2) execute_result [OF ex] show ?thesis
    by auto
qed

lemma enumerate_Suc_no_zero: "0 \<notin> fst ` set (enumerate (Suc k) xs)"
  by (auto simp: enumerate_eq_zip dest!: set_zip_leftD)

text \<open>
  Claim C1. Let \<open>chunk_size\<close> be positive and the encoded message strictly longer than
  \<open>chunk_size\<close>, and let \<open>submit_message\<close> return. Then the payload was split into a
  non-empty list of chunks, each of at most \<open>chunk_size\<close> bytes, whose concatenation in
  order is the payload; exactly one transaction per chunk was executed, in chunk order; the
  result is the chunked result with one entry per chunk, and its
  \<open>initial_transaction_id\<close> is the transaction id the network returned for the first
  chunk, which is also the transaction id of the first entry.
\<close>

theorem chunked_append_splits_payload:
  assumes pos: "0 < chunk_size"
    and big: "chunk_size < int (length (message_to_bytes E message))"
    and ok: "submit_message E svc topic_id message memo chunk_size w = (Inr r, w')"
  shows "\<exists>topic chunks cr receipt.
           TopicId_fromString E topic_id = Inr topic \<and>
           split_chunks (message_to_bytes E message) chunk_size = Inr chunks \<and>
           chunks \<noteq> [] \<and>
           concat chunks = message_to_bytes E message \<and>
           (\<forall>c \<in> set chunks. length c \<le> nat chunk_size) \<and>
           net_txs w' = net_txs w @
             map (\<lambda>(i, c). TopicMessageSubmitTx topic c (chunk_memo memo i (length chunks)))
               (enumerate 0 chunks) \<and>
           r = Chunked cr \<and>
           cr_total_chunks cr = length chunks \<and>
           length (cr_chunks cr) = length chunks \<and>
           execute_message_submit E (net_txs w)
             (TopicMessageSubmitTx topic (hd chunks) (chunk_memo memo 0 (length chunks)))
             = Inr receipt \<and>
           ce_transaction_id (hd (cr_chunks cr)) = sr_transactionId receipt \<and>
           cr_initial_transaction_id cr = Some (sr_transactionId receipt)"
proof -
  let ?bs = "message_to_bytes E message"
  let ?w0 = "record_call (SubmitMessage topic_id message memo chunk_size) w"
  from split_chunks_ok [OF pos, of ?bs] obtain chunks where
    sp: "split_chunks ?bs chunk_size = Inr chunks" and cc: "concat chunks = ?bs"
    and len: "\<forall>c \<in> set chunks. length c \<le> nat chunk_size" by blast
  from pos big have "?bs \<noteq> []" by auto
  with cc have ne: "chunks \<noteq> []" by auto
  then obtain c cs where chunks: "chunks = c # cs" by (cases chunks) auto
  from ok obtain rb where
    body: "submit_message_body E svc topic_id message memo chunk_size ?w0 = (Inr rb, w')"
    and r: "r = rb"
    by (auto simp: submit_message_def wrap_error_def split: prod.splits sum.splits)
  from body big obtain topic where topic: "TopicId_fromString E topic_id = Inr topic"
    and ch: "submit_chunked_message E svc topic ?bs memo chunk_size ?w0 = (Inr rb, w')"
    by (auto simp: submit_message_body_def Let_def split: sum.splits)
  from ch sp obtain results initial where
    loop: "chunk_loop E topic memo (length chunks) (enumerate 0 chunks) ([], None) ?w0
             = (Inr (results, initial), w')"
    and rb: "rb = Chunked \<lparr>cr_topic_id = topic, cr_message_size = length ?bs,
               cr_total_chunks = length chunks, cr_initial_transaction_id = initial,
               cr_chunks = results, cr_status = ''success''\<rparr>"
    by (auto simp: submit_chunked_message_def Let_def split: sum.splits prod.splits)
  have txs0: "net_txs ?w0 = net_txs w" by (simp add: record_call_def)
  from chunk_loop_inv [OF loop] txs0 have
    txs: "net_txs w' = net_txs w @
             map (\<lambda>(i, c). TopicMessageSubmitTx topic c (chunk_memo memo i (length chunks)))
               (enumerate 0 chunks)"
    and lr: "length results = length chunks"
    by auto
  from loop chunks have loop':
    "chunk_loop E topic memo (length chunks) ((0, c) # enumerate (Suc 0) cs) ([], None) ?w0
       = (Inr (results, initial), w')"
    by simp
  from chunk_loop_first [OF loop' enumerate_Suc_no_zero] txs0 chunks obtain receipt where
    "execute_message_submit E (net_txs w)
       (TopicMessageSubmitTx topic (hd chunks) (chunk_memo memo 0 (length chunks))) = Inr receipt"
    "initial = Some (sr_transactionId receipt)"
    "ce_transaction_id (hd results) = sr_transactionId receipt"
    by auto
  with topic sp ne cc len txs r rb lr show ?thesis by auto
qed

lemma demo_chunked_run:
  "submit_message demo_env demo_service ''0.0.101'' (MsgBytes ''abcde'') (Some ''m'') 2 demo_world
     = (Inr (Chunked \<lparr>cr_topic_id = ''0.0.101'', cr_message_size = 5, cr_total_chunks = 3,
          cr_initial_transaction_id = Some ''tx-0'',
          cr_chunks = [\<lparr>ce_chunk_number = 1, ce_transaction_id = ''tx-0'', ce_sequence_number = 1\<rparr>,
                       \<lparr>ce_chunk_number = 2, ce_transaction_id = ''tx-1'', ce_sequence_number = 2\<rparr>,
                       \<lparr>ce_chunk_number = 3, ce_transaction_id = ''tx-2'', ce_sequence_number = 3\<rparr>],
          cr_status = ''success''\<rparr>),
        \<lparr>calls = [SubmitMessage ''0.0.101'' (MsgBytes ''abcde'') (Some ''m'') 2],
         net_txs = [TopicMessageSubmitTx ''0.0.101'' ''ab'' (Some ''m:chunk:1/3''),
                    TopicMessageSubmitTx ''0.0.101'' ''cd'' (Some ''m:chunk:2/3''),
                    TopicMessageSubmitTx ''0.0.101'' ''e'' (Some ''m:chunk:3/3'')],
         clock_reads = 0, random_draws = 0\<rparr>)"
  by code_simp

theorem chunked_append_splits_payload_witness:
  "(0::int) < 2 \<and>
   2 < int (length (message_to_bytes demo_env (MsgBytes ''abcde''))) \<and>
   (\<exists>r w' chunks cr.
      submit_message demo_env demo_service ''0.0.101'' (MsgBytes ''abcde'') (Some ''m'') 2 demo_world
        = (Inr r, w') \<and>
      split_chunks ''abcde'' 2 = Inr chunks \<and>
      concat chunks = ''abcde'' \<and>
      r = Chunked cr \<and>
      cr_total_chunks cr = length chunks \<and>
      cr_initial_transaction_id cr = Some (ce_transaction_id (hd (cr_chunks cr))))"
proof -
  have h1: "(0::int) < 2" by simp
  have h2: "2 < int (length (message_to_bytes demo_env (MsgBytes ''abcde'')))"
    by (simp add: message_to_bytes_def)
  have bs: "message_to_bytes demo_env (MsgBytes ''abcde'') = ''abcde''"
    by (simp add: message_to_bytes_def)
  from chunked_append_splits_payload [OF h1 h2 demo_chunked_run] obtain chunks cr where
    "split_chunks (message_to_bytes demo_env (MsgBytes ''abcde'')) 2 = Inr chunks"
    "concat chunks = message_to_bytes demo_env (MsgBytes ''abcde'')"
    "Chunked \<lparr>cr_topic_id = ''0.0.101'', cr_message_size = 5, cr_total_chunks = 3,
          cr_initial_transaction_id = Some ''tx-0'',
          cr_chunks = [\<lparr>ce_chunk_number = 1, ce_transaction_id = ''tx-0'', ce_sequence_number = 1\<rparr>,
                       \<lparr>ce_chunk_number = 2, ce_transaction_id = ''tx-1'', ce_sequence_number = 2\<rparr>,
                       \<lparr>ce_chunk_number = 3, ce_transaction_id = ''tx-2'', ce_sequence_number = 3\<rparr>],
          cr_status = ''success''\<rparr> = Chunked cr"
    "cr_total_chunks cr = length chunks"
    by blast
  with h1 h2 bs demo_chunked_run show ?thesis
    by (intro conjI exI [of _ chunks] exI [of _ cr] exI) auto
qed

subsection \<open>Unsubscribing\<close>

lemma del_if_present_absent [simp]: "del_if_present d k k = None"
  by (simp add: del_if_present_def)

lemma del_if_present_other [simp]: "k' \<noteq> k \<Longrightarrow> del_if_present d k k' = d k'"
  by (simp add: del_if_present_def)

lemma del_if_present_idem [simp]: "del_if_present (del_if_present d k) k = del_if_present d k"
  by (simp add: del_if_present_def)

lemma del_if_present_never: "d k = None \<Longrightarrow> del_if_present d k = d"
  by (simp add: del_if_present_def)

lemma unsubscribe_from_topic_eq:
  "unsubscribe_from_topic E topic_id (svc, w) =
     (Inr \<lparr>us_topic_id = topic_id, us_subscription_status = ''inactive'',
            us_unsubscribed_at = iso_z E (utcnow E (clock_reads w))\<rparr>,
      svc\<lparr>subscribed_topics := del_if_present (subscribed_topics svc) topic_id,
          message_handlers := del_if_present (message_handlers svc) topic_id\<rparr>,
      w\<lparr>calls := calls w @ [UnsubscribeFromTopic topic_id], clock_reads := Suc (clock_reads w)\<rparr>)"
  by (simp add: unsubscribe_from_topic_def now_def record_call_def Let_def)

text \<open>
  Claim C10. \<open>unsubscribe_from_topic\<close> never raises: for every topic id and every state of
  the service, subscribed or not, it returns a result whose \<open>subscription_status\<close> is
  \<open>inactive\<close>. Afterwards the topic id is in neither \<open>subscribed_topics\<close> nor
  \<open>message_handlers\<close>, the other keys are untouched, a topic that was never subscribed
  leaves the service as it was, and a second call leaves the service in the state the first
  call produced.
\<close>

theorem unsubscribe_idempotent:
  assumes first: "unsubscribe_from_topic E topic_id (svc, w) = (r1, svc1, w1)"
    and second: "unsubscribe_from_topic E topic_id (svc1, w1) = (r2, svc2, w2)"
  shows "(\<exists>res. r1 = Inr res \<and> us_topic_id res = topic_id \<and>
                 us_subscription_status res = ''inactive'') \<and>
         (\<exists>res. r2 = Inr res \<and> us_topic_id res = topic_id \<and>
                 us_subscription_status res = ''inactive'') \<and>
         subscribed_topics svc1 topic_id = None \<and>
         message_handlers svc1 topic_id = None \<and>
         (\<forall>k. k \<noteq> topic_id \<longrightarrow>
            subscribed_topics svc1 k = subscribed_topics svc k \<and>
            message_handlers svc1 k = message_handlers svc k) \<and>
         (subscribed_topics svc topic_id = None \<and> message_handlers svc topic_id = None
            \<longrightarrow> svc1 = svc) \<and>
         svc2 = svc1"
proof -
  from first have r1: "r1 = Inr \<lparr>us_topic_id = topic_id, us_subscription_status = ''inactive'',
            us_unsubscribed_at = iso_z E (utcnow E (clock_reads w))\<rparr>"
    and svc1: "svc1 = svc\<lparr>subscribed_topics := del_if_present (subscribed_topics svc) topic_id,
          message_handlers := del_if_present (message_handlers svc) topic_id\<rparr>"
    by (simp_all add: unsubscribe_from_topic_eq)
  from second have r2: "r2 = Inr \<lparr>us_topic_id = topic_id, us_subscription_status = ''inactive'',
            us_unsubscribed_at = iso_z E (utcnow E (clock_reads w1))\<rparr>"
    and svc2: "svc2 = svc1\<lparr>subscribed_topics := del_if_present (subscribed_topics svc1) topic_id,
          message_handlers := del_if_present (message_handlers svc1) topic_id\<rparr>"
    by (simp_all add: unsubscribe_from_topic_eq)
  from svc1 svc2 have "svc2 = svc1" by simp
  moreover from svc1 have
    "subscribed_topics svc topic_id = None \<and> message_handlers svc topic_id = None \<longrightarrow> svc1 = svc"
    by (simp add: del_if_present_never)
  ultimately show ?thesis using r1 r2 svc1 by simp
qed

theorem unsubscribe_idempotent_witness:
  "\<exists>r1 svc1 w1 r2 svc2 w2.
     unsubscribe_from_topic demo_env ''0.0.101'' (subscribed_service, demo_world) = (r1, svc1, w1) \<and>
     unsubscribe_from_topic demo_env ''0.0.101'' (svc1, w1) = (r2, svc2, w2) \<and>
     subscribed_topics subscribed_service ''0.0.101'' = Some True \<and>
     subscribed_topics svc1 ''0.0.101'' = None \<and>
     message_handlers svc1 ''0.0.101'' = None \<and>
     subscribed_topics svc1 ''0.0.102'' = Some True \<and>
     svc2 = svc1"
proof -
  obtain r1 svc1 w1 where
    first: "unsubscribe_from_topic demo_env ''0.0.101'' (subscribed_service, demo_world)
              = (r1, svc1, w1)"
    by (rule prod_cases3)
  obtain r2 svc2 w2 where
    second: "unsubscribe_from_topic demo_env ''0.0.101'' (svc1, w1) = (r2, svc2, w2)"
    by (rule prod_cases3)
  have "subscribed_topics subscribed_service ''0.0.101'' = Some True"
    and "subscribed_topics subscribed_service ''0.0.102'' = Some True"
    by (simp_all add: subscribed_service_def)
  with unsubscribe_idempotent [OF first second] first second show ?thesis
    by auto
qed

section \<open>Properties of the Consensus Manager\<close>

subsection \<open>Validation of typed submissions\<close>

text \<open>Whatever the type, a missing required field stops the submit before the Log Client
  is called: manager and world are returned as they were. The \<^verbatim>\<open>ValidationError\<close> is
  raised inside \<^verbatim>\<open>try\<close>, so the caller receives the wrapping \<^verbatim>\<open>BlockchainError\<close>.\<close>

lemma submit_typed_missing_field:
  assumes "find (\<lambda>field. map_of data field = None) required_fields = Some field"
  shows "submit_typed E required_fields message_type metadata copied failure topic_id data priority
           (cm, w)
         = (Inl (BlockchainError (failure @ ''Missing required field: '' @ field)), cm, w)"
  using assms
  by (simp add: submit_typed_def submit_typed_body_def validate_required_def wrap_error_def)

text \<open>
  Claim C2, at a waste submission that lacks \<^verbatim>\<open>weight_kg\<close>: for every topic id, priority,
  manager and world, \<open>submit_waste_submission\<close> makes no call (manager and world are
  unchanged) and the exception that reaches the caller is a \<^verbatim>\<open>BlockchainError\<close> whose
  detail quotes the validation message, not a \<^verbatim>\<open>ValidationError\<close>.
\<close>

theorem waste_validation_error_is_wrapped:
  "submit_waste_submission E topic_id waste_without_weight priority (cm, w) =
     (Inl (BlockchainError
             ''Waste submission to consensus failed: Missing required field: weight_kg''),
      cm, w)"
  by (simp add: submit_waste_submission_def submit_typed_def submit_typed_body_def
        validate_required_def waste_without_weight_def wrap_error_def)

subsection \<open>Reading the history\<close>

text \<open>A payload that \<^verbatim>\<open>json.loads\<close> rejects is skipped, and so is a dictionary of another
  type than the filter's; a dictionary that passes is kept.\<close>

lemma process_message_undecodable:
  "json_loads E (tm_contents message) = None \<Longrightarrow>
     process_message E message_type message = Inr None"
  by (simp add: process_message_def)

lemma process_message_not_a_dict:
  "json_loads E (tm_contents message) = Some content \<Longrightarrow> \<forall>kvs. content \<noteq> JObj kvs \<Longrightarrow>
     process_message E message_type message = Inl (AttributeError (type_name content) ''get'')"
  by (cases content) (auto simp: process_message_def)

lemma garbled_history_is_skipped:
  "fst (query_consensus_history garbled_history_env ''0.0.500'' None None None 100
          (demo_manager, demo_world))
     = Inr \<lparr>hr_topic_id = ''0.0.500'', hr_message_type_filter = None,
             hr_total_messages = 1,
             hr_messages =
               [\<lparr>hm_consensus_timestamp = ''1700000000.000000001'',
                  hm_sequence_number = 1,
                  hm_message_type = JStr ''audit_record'',
                  hm_priority = JStr ''high'', hm_data = JNull,
                  hm_metadata = JNull, hm_running_hash = None\<rparr>],
             hr_query_timestamp = ''2025-01-01T00:00:00Z''\<rparr>"
  by code_simp

text \<open>
  Claim C8, at a topic that holds an audit record followed by the payload \<^verbatim>\<open>42\<close>: the
  payload is valid JSON but no envelope, \<^verbatim>\<open>content.get\<close> raises \<^verbatim>\<open>AttributeError\<close>,
  which the loop does not catch, and the whole query raises \<^verbatim>\<open>BlockchainError\<close>; the
  audit record is not returned.
\<close>

theorem query_history_fails_on_number:
  "fst (query_consensus_history history_env ''0.0.500'' None None None 100
          (demo_manager, demo_world))
     = Inl (BlockchainError (''Consensus history query failed: '' @ squote @ ''int'' @ squote @
              '' object has no attribute '' @ squote @ ''get'' @ squote))"
  by code_simp

section \<open>Properties of the agent\<close>

text \<open>The definitions that the runs of the agent in the examples unfold.\<close>

lemmas demo_agent_simps =
  initialize_def initialize_body_def and_then_def init_account_def init_outbound_topic_def
  init_inbound_topic_def init_profile_topic_def publish_profile_def
  setup_message_listeners_def init_finish_def create_account_def create_topic_def
  submit_message_def submit_message_body_def message_to_bytes_def record_call_def execute_def
  wrap_error_def now_def iso_z_def Let_def demo_env_def failing_env_def demo_agent_def
  demo_world_def demo_service_def demo_client_def demo_dumps_def profile_data_def
  operator_public_key_def str_nat.simps digit_char_def

subsection \<open>Sending\<close>

text \<open>
  Claim C3. When the connections map has no entry for the target agent, \<open>send_message\<close>
  and \<open>send_transaction_request\<close> both raise a \<^verbatim>\<open>BlockchainError\<close>, the class that
  failures of the network carry, whose detail is the name of the operation followed by
  \<^verbatim>\<open>No active connection with agent <id>\<close>, and return the agent and the world
  unchanged: the list of calls received by the Log Client, the network log and the clock are
  those of before.
\<close>

theorem send_without_connection_fails_locally:
  assumes "connections a target_agent_id = None"
  shows "send_message E target_agent_id message_data message_type (a, w) =
           (Inl (BlockchainError
                   (''Message sending failed: No active connection with agent '' @ target_agent_id)),
            a, w) \<and>
         send_transaction_request E target_agent_id transaction_data schedule_id (a, w) =
           (Inl (BlockchainError
                   (''Transaction request failed: No active connection with agent '' @
                    target_agent_id)),
            a, w)"
  using assms
  by (simp add: send_message_def send_message_body_def send_transaction_request_def
        send_transaction_request_body_def wrap_error_def)

theorem send_without_connection_fails_locally_witness:
  "connections demo_agent ''0.0.unknown'' = None \<and>
   send_message demo_env ''0.0.unknown'' ''Hello'' ''standard'' (demo_agent, demo_world) =
     (Inl (BlockchainError ''Message sending failed: No active connection with agent 0.0.unknown''),
      demo_agent, demo_world) \<and>
   send_transaction_request demo_env ''0.0.unknown'' [] None (demo_agent, demo_world) =
     (Inl (BlockchainError
             ''Transaction request failed: No active connection with agent 0.0.unknown''),
      demo_agent, demo_world) \<and>
   calls demo_world = []"
proof -
  have h: "connections demo_agent ''0.0.unknown'' = None"
    by (simp add: demo_agent_def)
  from send_without_connection_fails_locally
         [OF h, of demo_env "''Hello''" "''standard''" demo_world "[]" None] h
  show ?thesis by (simp add: demo_world_def)
qed

text \<open>
  The exception raised for a missing connection is not of a class of its own: in both
  methods its class is \<^verbatim>\<open>BlockchainError\<close>, which is also the class raised when the
  network rejects the append of a message to an existing connection.
\<close>

theorem send_without_connection_raises_blockchain_error:
  "raised_class (fst (send_message demo_env ''0.0.unknown'' ''Hello'' ''standard''
                        (demo_agent, demo_world))) = Some ''BlockchainError'' \<and>
   raised_class (fst (send_message demo_env ''0.0.unknown'' ''Hello'' ''standard''
                        (demo_agent, demo_world))) \<noteq> Some ''NoActiveConnectionError'' \<and>
   raised_class (fst (send_transaction_request demo_env ''0.0.unknown'' [] None
                        (demo_agent, demo_world))) = Some ''BlockchainError'' \<and>
   raised_class (fst (send_transaction_request demo_env ''0.0.unknown'' [] None
                        (demo_agent, demo_world))) \<noteq> Some ''NoActiveConnectionError'' \<and>
   raised_class (fst (send_message rejecting_env ''0.0.200'' ''Hello'' ''standard''
                        (connected_agent, demo_world))) = Some ''BlockchainError''"
  by (simp add: raised_class_def send_message_def send_message_body_def
        send_transaction_request_def send_transaction_request_body_def connected_agent_def
        demo_connection_def rejecting_env_def operator_id_def demo_agent_simps)

text \<open>A successful \<open>send_message\<close> stores the time read after the append in the
  connection and changes nothing else of the agent; \<open>send_transaction_request\<close> returns
  the agent it was given, whatever happens.\<close>

lemma send_message_sets_last_activity:
  assumes "connections a target_agent_id = Some c"
    and "send_message E target_agent_id message_data message_type (a, w) = (Inr r, a', w')"
  shows "\<exists>t. a' = a\<lparr>connections :=
                       (connections a)(target_agent_id \<mapsto> c\<lparr>last_activity := Some t\<rparr>)\<rparr>"
  using assms
  by (auto simp: send_message_def send_message_body_def wrap_error_def Let_def now_def
        split: prod.splits sum.splits)

lemma send_transaction_request_agent:
  "send_transaction_request E target_agent_id transaction_data schedule_id (a, w) = (r, a', w')
     \<Longrightarrow> a' = a"
  by (auto simp: send_transaction_request_def send_transaction_request_body_def Let_def
        wrap_error_def split: option.splits prod.splits sum.splits)

text \<open>
  Claim C4, at an agent connected to \<open>0.0.200\<close> whose connection has never been used:
  \<open>send_transaction_request\<close> succeeds, and the connection stored for \<open>0.0.200\<close>
  afterwards is the one of before, its \<open>last_activity\<close> still \<^verbatim>\<open>None\<close>.
\<close>

theorem transaction_request_keeps_last_activity:
  "fst (send_transaction_request demo_env ''0.0.200'' [(''type'', JStr ''token_transfer'')] None
          (connected_agent, demo_world))
     = Inr (Single \<lparr>sg_topic_id = ''0.0.300'', sg_message_size = 38,
              sg_transaction_id = ''tx-0'', sg_consensus_timestamp = None,
              sg_sequence_number = 1, sg_running_hash = None, sg_status = ''success''\<rparr>) \<and>
   connections (fst (snd (send_transaction_request demo_env ''0.0.200''
                            [(''type'', JStr ''token_transfer'')] None
                            (connected_agent, demo_world)))) ''0.0.200''
     = Some demo_connection \<and>
   last_activity demo_connection = None"
  by code_simp

subsection \<open>Discovery\<close>

lemma discover_message_undecodable:
  "json_loads E (tm_contents message) = None \<Longrightarrow>
     discover_message E own_account_id message = Inr None"
  by (simp add: discover_message_def)

text \<open>An entry that is returned never carries the caller's own account id.\<close>

lemma discover_message_not_self:
  "discover_message E own_account_id message = Inr (Some d) \<Longrightarrow>
     da_account_id d \<noteq> opt_str_json own_account_id"
  by (auto simp: discover_message_def dict_item_def dict_get_def dict_get_default_def
        split: option.splits json.splits if_splits sum.splits)

text \<open>
  Claim C5, at a registry topic that holds an undecodable entry, a \<^verbatim>\<open>register\<close> envelope
  without \<^verbatim>\<open>account_id\<close> and the registration of \<open>0.0.200\<close>, read by the agent
  \<open>0.0.100\<close>: the second entry passes the condition (its missing account id differs from
  the caller's), \<^verbatim>\<open>content["account_id"]\<close> raises \<^verbatim>\<open>KeyError\<close>, which the loop does
  not catch, and the whole call raises \<^verbatim>\<open>BlockchainError\<close>; the registration of
  \<open>0.0.200\<close> is not returned.
\<close>

theorem discover_agents_fails_on_malformed_entry:
  "fst (discover_agents registry_env (Some ''0.0.900'') (connected_agent, demo_world))
     = Inl (BlockchainError (''Agent discovery failed: '' @ squote @ ''account_id'' @ squote))"
  by code_simp

text \<open>The same happens at an entry that is valid JSON but no dictionary.\<close>

lemma discover_agents_fails_on_number:
  "fst (discover_agents number_registry_env (Some ''0.0.900'') (connected_agent, demo_world))
     = Inl (BlockchainError (''Agent discovery failed: '' @ squote @ ''int'' @ squote @
              '' object has no attribute '' @ squote @ ''get'' @ squote))"
  by code_simp

section \<open>The message count of the registry\<close>

text \<open>What one call does to the registry: a failed call changes nothing, a creation
  stores a fresh entry under the new topic id, a successful submit updates the entry of its
  topic, if there is one.\<close>

lemma update_registry_entry:
  "update_registry E topic_id (cm, w) = (cm', w') \<Longrightarrow>
     (case topic_registry cm topic_id of
        None \<Rightarrow> cm' = cm
      | Some e \<Rightarrow> 
          cm' = cm\<lparr>topic_registry := (topic_registry cm)(topic_id \<mapsto>
                  e\<lparr>ti_message_count := ti_message_count e + 1,
                    ti_last_activity := Some (iso_z E (utcnow E (clock_reads w)))\<rparr>)\<rparr>)"
  by (auto simp: update_registry_def now_def Let_def split: option.splits)

lemma submit_typed_registry:
  assumes "submit_typed E required_fields message_type metadata copied failure topic_id data priority
             (cm, w) = (r, cm', w')"
  shows "case r of
           Inl e \<Rightarrow> cm' = cm
         | Inr res \<Rightarrow>
             (case topic_registry cm topic_id of
                None \<Rightarrow> cm' = cm
              | Some e \<Rightarrow> \<exists>ts.
                  cm' = cm\<lparr>topic_registry := (topic_registry cm)(topic_id \<mapsto>
                          e\<lparr>ti_message_count := ti_message_count e + 1,
                            ti_last_activity := Some ts\<rparr>)\<rparr>)"
  using assms
  by (auto simp: submit_typed_def submit_typed_body_def wrap_error_def Let_def now_def
        update_registry_def
        split: sum.splits prod.splits option.splits)

lemma create_consensus_topic_registry:
  assumes "create_consensus_topic E topic_type description admin_key submit_key (cm, w) = (r, cm', w')"
  shows "case r of
           Inl e \<Rightarrow> cm' = cm
         | Inr info \<Rightarrow>
             ti_message_count info = 0 \<and> ti_last_activity info = None \<and>
             cm' = cm\<lparr>topic_registry := (topic_registry cm)(ct_topic_id (ti_result info) \<mapsto> info)\<rparr>"
  using assms
  by (auto simp: create_consensus_topic_def wrap_error_def Let_def now_def
        split: sum.splits prod.splits)

lemma submitted_entry:
  assumes run: "submitted (submit_typed E required_fields message_type metadata copied failure
                   topic_id data priority (cm, w)) = (out, cm', w')"
    and entry: "topic_registry cm t = Some e"
  shows "if topic_id = t \<and> returned out
         then \<exists>ts. topic_registry cm' t =
                  Some (e\<lparr>ti_message_count := ti_message_count e + 1, ti_last_activity := Some ts\<rparr>)
         else topic_registry cm' t = Some e"
proof -
  obtain r cm1 w1 where
    st: "submit_typed E required_fields message_type metadata copied failure topic_id data priority
           (cm, w) = (r, cm1, w1)"
    by (rule prod_cases3)
  show ?thesis
  proof (cases r)
    case (Inl x)
    with st run submit_typed_registry [OF st] entry show ?thesis
      by (auto simp: submitted_def)
  next
    case (Inr res)
    with st run have out: "out = Submitted res" and cm': "cm' = cm1"
      by (auto simp: submitted_def)
    show ?thesis
    proof (cases "topic_id = t")
      case True
      with submit_typed_registry [OF st] Inr entry out cm' show ?thesis by auto
    next
      case False
      with submit_typed_registry [OF st] Inr entry out cm' show ?thesis
        by (auto split: option.splits)
    qed
  qed
qed

lemma run_call_entry:
  assumes run: "run_call E c (cm, w) = (out, cm', w')"
    and entry: "topic_registry cm t = Some e"
    and other: "\<not> creates t out"
  shows "if successful_submit t (c, out)
         then \<exists>ts. topic_registry cm' t =
                  Some (e\<lparr>ti_message_count := ti_message_count e + 1, ti_last_activity := Some ts\<rparr>)
         else topic_registry cm' t = Some e"
proof (cases c)
  case (CreateConsensusTopic topic_type description admin_key submit_key)
  obtain r cm1 w1 where
    cr: "create_consensus_topic E topic_type description admin_key submit_key (cm, w) = (r, cm1, w1)"
    by (rule prod_cases3)
  with run CreateConsensusTopic create_consensus_topic_registry [OF cr] entry other show ?thesis
    by (cases r) (auto simp: successful_submit_def)
next
  case (SubmitWasteSubmission topic_id data priority)
  with run submitted_entry [OF _ entry] show ?thesis
    by (simp add: submit_waste_submission_def successful_submit_def)
next
  case (SubmitCarbonVerification topic_id data priority)
  with run submitted_entry [OF _ entry] show ?thesis
    by (simp add: submit_carbon_verification_def successful_submit_def)
next
  case (SubmitRecyclingEvent topic_id data priority)
  with run submitted_entry [OF _ entry] show ?thesis
    by (simp add: submit_recycling_event_def successful_submit_def)
next
  case (SubmitAuditRecord topic_id data priority)
  with run submitted_entry [OF _ entry] show ?thesis
    by (simp add: submit_audit_record_def successful_submit_def)
next
  case (SubmitSmartBinData topic_id data priority)
  with run submitted_entry [OF _ entry] show ?thesis
    by (simp add: submit_smart_bin_data_def successful_submit_def)
qed

lemma run_calls_entry:
  assumes "run_calls E cs (cm, w) = (outs, cm', w')"
    and "topic_registry cm t = Some e"
    and "\<forall>out \<in> set outs. \<not> creates t out"
  shows "\<exists>e'. topic_registry cm' t = Some e' \<and>
              ti_message_count e' = ti_message_count e + int (successful_submits t cs outs) \<and>
              ti_result e' = ti_result e \<and>
              (successful_submits t cs outs = 0 \<longrightarrow> ti_last_activity e' = ti_last_activity e) \<and>
              (0 < successful_submits t cs outs \<longrightarrow> ti_last_activity e' \<noteq> None)"
  using assms
proof (induction cs arbitrary: cm w e outs cm' w')
  case Nil
  then show ?case by (simp add: successful_submits_def)
next
  case (Cons c cs)
  obtain out cm1 w1 where step: "run_call E c (cm, w) = (out, cm1, w1)"
    by (rule prod_cases3)
  obtain outs1 cm2 w2 where rest: "run_calls E cs (cm1, w1) = (outs1, cm2, w2)"
    by (rule prod_cases3)
  from Cons.prems(1) step rest have outs: "outs = out # outs1" and fin: "cm' = cm2"
    by simp_all
  from Cons.prems(3) outs have nc: "\<not> creates t out" and ncs: "\<forall>out \<in> set outs1. \<not> creates t out"
    by simp_all
  have cnt: "successful_submits t (c # cs) outs =
               (if successful_submit t (c, out) then 1 else 0) + successful_submits t cs outs1"
    using outs by (simp add: successful_submits_def)
  show ?case
  proof (cases "successful_submit t (c, out)")
    case True
    with run_call_entry [OF step Cons.prems(2) nc] obtain ts where
      e1: "topic_registry cm1 t =
             Some (e\<lparr>ti_message_count := ti_message_count e + 1, ti_last_activity := Some ts\<rparr>)"
      by auto
    from Cons.IH [OF rest e1 ncs] True cnt fin show ?thesis
      by auto
  next
    case False
    with run_call_entry [OF step Cons.prems(2) nc] have e1: "topic_registry cm1 t = Some e"
      by simp
    from Cons.IH [OF rest e1 ncs] False cnt fin show ?thesis
      by auto
  qed
qed


text \<open>
  Claim C6. Let a topic be created through the registry, and let any sequence of typed
  submits and topic creations follow in which no later creation is given the same topic id
  by the network. The entry is created with \<open>message_count\<close> 0 and no
  \<open>last_activity\<close>. After the sequence the entry is still there, its
  \<open>message_count\<close> is the number of submit calls against that topic id that returned,
  and its \<open>last_activity\<close> is set exactly when there was one. Any further call that
  is a submit against the topic and returns adds exactly one to the count and sets
  \<open>last_activity\<close>; any other call, a failed submit in particular, leaves the entry
  as it is.
\<close>

theorem message_count_counts_successful_submits:
  assumes created: "create_consensus_topic E topic_type description admin_key submit_key (cm, w)
                      = (Inr info, cm1, w1)"
    and ran: "run_calls E cs (cm1, w1) = (outs, cm2, w2)"
    and once: "\<forall>out \<in> set outs. \<not> creates (ct_topic_id (ti_result info)) out"
  shows "ti_message_count info = 0 \<and>
         ti_last_activity info = None \<and>
         topic_registry cm1 (ct_topic_id (ti_result info)) = Some info \<and>
         (\<exists>entry.
            topic_registry cm2 (ct_topic_id (ti_result info)) = Some entry \<and>
            ti_message_count entry =
              int (successful_submits (ct_topic_id (ti_result info)) cs outs) \<and>
            (ti_last_activity entry \<noteq> None \<longleftrightarrow>
               0 < successful_submits (ct_topic_id (ti_result info)) cs outs) \<and>
            (\<forall>c out cm3 w3.
               run_call E c (cm2, w2) = (out, cm3, w3) \<and>
               \<not> creates (ct_topic_id (ti_result info)) out \<longrightarrow>
               (if successful_submit (ct_topic_id (ti_result info)) (c, out)
                then \<exists>ts. topic_registry cm3 (ct_topic_id (ti_result info)) =
                       Some (entry\<lparr>ti_message_count := ti_message_count entry + 1,
                                   ti_last_activity := Some ts\<rparr>)
                else topic_registry cm3 (ct_topic_id (ti_result info)) = Some entry)))"
proof -
  let ?t = "ct_topic_id (ti_result info)"
  from create_consensus_topic_registry [OF created] have
    zero: "ti_message_count info = 0" and quiet: "ti_last_activity info = None"
    and reg: "topic_registry cm1 ?t = Some info"
    by simp_all
  from run_calls_entry [OF ran reg once] zero quiet obtain entry where
    e: "topic_registry cm2 ?t = Some entry"
    and cnt: "ti_message_count entry = int (successful_submits ?t cs outs)"
    and act: "ti_last_activity entry \<noteq> None \<longleftrightarrow> 0 < successful_submits ?t cs outs"
    by auto
  have "\<forall>c out cm3 w3.
          run_call E c (cm2, w2) = (out, cm3, w3) \<and> \<not> creates ?t out \<longrightarrow>
          (if successful_submit ?t (c, out)
           then \<exists>ts. topic_registry cm3 ?t =
                  Some (entry\<lparr>ti_message_count := ti_message_count entry + 1,
                              ti_last_activity := Some ts\<rparr>)
           else topic_registry cm3 ?t = Some entry)"
    using run_call_entry [OF _ e] by blast
  with e cnt act have "\<exists>entry.
            topic_registry cm2 ?t = Some entry \<and>
            ti_message_count entry = int (successful_submits ?t cs outs) \<and>
            (ti_last_activity entry \<noteq> None \<longleftrightarrow> 0 < successful_submits ?t cs outs) \<and>
            (\<forall>c out cm3 w3.
               run_call E c (cm2, w2) = (out, cm3, w3) \<and> \<not> creates ?t out \<longrightarrow>
               (if successful_submit ?t (c, out)
                then \<exists>ts. topic_registry cm3 ?t =
                       Some (entry\<lparr>ti_message_count := ti_message_count entry + 1,
                                   ti_last_activity := Some ts\<rparr>)
                else topic_registry cm3 ?t = Some entry))"
    by (intro exI [of _ entry] conjI)
  with zero quiet reg show ?thesis by (intro conjI)
qed


lemma run_call_submit_never_creates:
  "run_call E c s = (out, s') \<Longrightarrow> submit_target c \<noteq> None \<Longrightarrow> \<not> creates t out"
  by (cases c) (auto simp: submitted_def split: prod.splits sum.splits)

lemma run_calls_submits_never_create:
  "run_calls E cs s = (outs, s') \<Longrightarrow> \<forall>c \<in> set cs. submit_target c \<noteq> None \<Longrightarrow>
     \<forall>out \<in> set outs. \<not> creates t out"
proof (induction cs arbitrary: s outs s')
  case Nil
  then show ?case by simp
next
  case (Cons c cs)
  obtain out s1 where step: "run_call E c s = (out, s1)" by (cases "run_call E c s")
  obtain outs1 s2 where rest: "run_calls E cs s1 = (outs1, s2)" by (cases "run_calls E cs s1")
  from Cons.prems(1) step rest have outs: "outs = out # outs1" by simp
  from run_call_submit_never_creates [OF step] Cons.prems(2) have "\<not> creates t out" by simp
  moreover from Cons.IH [OF rest] Cons.prems(2) have "\<forall>out \<in> set outs1. \<not> creates t out" by simp
  ultimately show ?case using outs by simp
qed


lemmas demo_manager_simps =
  create_consensus_topic_def create_topic_def record_call_def execute_def
  demo_env_def demo_manager_def demo_world_def demo_service_def demo_client_def
  now_def iso_z_def Let_def str_nat.simps digit_char_def demo_topic_info_def
  submit_waste_submission_def submit_audit_record_def submit_typed_def submit_typed_body_def
  validate_required_def wrap_error_def submit_message_def submit_message_body_def
  message_to_bytes_def demo_dumps_def update_registry_def submitted_def
  waste_complete_def waste_without_weight_def dict_get_def dict_get_default_def
  successful_submits_def successful_submit_def demo_calls_def

lemma demo_topic_created:
  "fst (create_consensus_topic demo_env WASTE_SUBMISSIONS ''Waste records'' None None
          (demo_manager, demo_world))
     = Inr demo_topic_info"
  by (simp add: demo_manager_simps)

lemma demo_successes:
  "successful_submits ''0.0.100'' demo_calls
     (fst (run_calls demo_env demo_calls
        (snd (create_consensus_topic demo_env WASTE_SUBMISSIONS ''Waste records'' None None
                (demo_manager, demo_world)))))
     = 2"
  by (simp add: demo_manager_simps)

theorem message_count_counts_successful_submits_witness:
  "\<exists>cm1 w1 outs cm2 w2 entry.
     create_consensus_topic demo_env WASTE_SUBMISSIONS ''Waste records'' None None
       (demo_manager, demo_world) = (Inr demo_topic_info, cm1, w1) \<and>
     run_calls demo_env demo_calls (cm1, w1) = (outs, cm2, w2) \<and>
     (\<forall>out \<in> set outs. \<not> creates (ct_topic_id (ti_result demo_topic_info)) out) \<and>
     ct_topic_id (ti_result demo_topic_info) = ''0.0.100'' \<and>
     successful_submits ''0.0.100'' demo_calls outs = 2 \<and>
     topic_registry cm2 ''0.0.100'' = Some entry \<and>
     ti_message_count entry = 2 \<and>
     ti_last_activity entry \<noteq> None"
proof -
  obtain r cm1 w1 where
    c0: "create_consensus_topic demo_env WASTE_SUBMISSIONS ''Waste records'' None None
           (demo_manager, demo_world) = (r, cm1, w1)"
    by (rule prod_cases3)
  obtain outs cm2 w2 where ran: "run_calls demo_env demo_calls (cm1, w1) = (outs, cm2, w2)"
    by (rule prod_cases3)
  from c0 demo_topic_created have created:
    "create_consensus_topic demo_env WASTE_SUBMISSIONS ''Waste records'' None None
       (demo_manager, demo_world) = (Inr demo_topic_info, cm1, w1)"
    by simp
  from c0 ran demo_successes have two: "successful_submits ''0.0.100'' demo_calls outs = 2"
    by simp
  have tid: "ct_topic_id (ti_result demo_topic_info) = ''0.0.100''"
    by (simp add: demo_topic_info_def)
  have "\<forall>c \<in> set demo_calls. submit_target c \<noteq> None"
    by (simp add: demo_calls_def)
  from run_calls_submits_never_create [OF ran this]
  have once: "\<forall>out \<in> set outs. \<not> creates (ct_topic_id (ti_result demo_topic_info)) out" .
  note main = message_count_counts_successful_submits [OF created ran once, unfolded tid two]
  from main obtain entry where
    e: "topic_registry cm2 ''0.0.100'' = Some entry"
    and c: "ti_message_count entry = int 2"
    and l: "(ti_last_activity entry \<noteq> None) = (0 < (2::nat))"
    by (elim conjE exE) (rule that)
  from c have c': "ti_message_count entry = 2" by simp
  from l have l': "ti_last_activity entry \<noteq> None" by simp
  show ?thesis
    apply (rule exI [of _ cm1], rule exI [of _ w1], rule exI [of _ outs],
           rule exI [of _ cm2], rule exI [of _ w2], rule exI [of _ entry])
    apply (intro conjI)
           apply (rule created)
          apply (rule ran)
         apply (rule once)
        apply (rule tid)
       apply (rule two)
      apply (rule e)
     apply (rule c')
    apply (rule l')
    done
qed

section \<open>Initialisation and the handshake\<close>

subsection \<open>What the collaborators record\<close>





subsection \<open>\<^verbatim>\<open>initialize\<close>, step by step\<close>





















subsection \<open>\<^verbatim>\<open>create_connection\<close>\<close>




end
